theory Spec2Isabelle
  imports Complex_Main
begin

chapter \<open>Daily calendar summary script: batching, reconciliation and delivery\<close>

text \<open>
  A shallow embedding of the calendar summary script: the configuration loader and its
  validation, the frequency gate, the date range resolver, the calendar batcher, the retry
  wrapper, the reconciliation and queue building of the main function, the batch sender and
  the execution tracker.

  Conventions of the model.
  \<^item> A JavaScript string is a \<open>string\<close>; the texts handled are taken to be ASCII, so case
    mapping acts on the letters A to Z and a to z only.
  \<^item> A JavaScript object used as a dictionary is an association list in insertion order, the
    order in which \<open>Object.keys\<close> lists keys that are not array indices.
  \<^item> The platform (calendar, mail, spreadsheet, properties, sleep, random numbers) is a record
    of state transformers over an arbitrary state \<open>'s\<close>; a call that throws returns \<open>Inl\<close>.
  \<^item> A \<open>Date\<close> is its time value in milliseconds, taken to be in the range of valid
    dates. The script's time zone \<open>tz\<close> is an arbitrary offset function, as in the language
    definition: the offset may change from one instant to another (daylight saving).
  \<^item> \<open>Logger.log\<close> has no effect on any value and is left out.
\<close>

section \<open>Strings\<close>

definition isDigit :: "char \<Rightarrow> bool" where
  "isDigit c = (48 \<le> (of_char c :: nat) \<and> (of_char c :: nat) \<le> 57)"

definition isUpper :: "char \<Rightarrow> bool" where
  "isUpper c = (65 \<le> (of_char c :: nat) \<and> (of_char c :: nat) \<le> 90)"

definition isLower :: "char \<Rightarrow> bool" where
  "isLower c = (97 \<le> (of_char c :: nat) \<and> (of_char c :: nat) \<le> 122)"

definition isAlpha :: "char \<Rightarrow> bool" where
  "isAlpha c = (isLower c \<or> isUpper c)"

definition isAlnum :: "char \<Rightarrow> bool" where
  "isAlnum c = (isAlpha c \<or> isDigit c)"

text \<open>White space as \<open>String.prototype.trim\<close> sees it, among the ASCII characters.\<close>

definition isSpace :: "char \<Rightarrow> bool" where
  "isSpace c = ((9 \<le> (of_char c :: nat) \<and> (of_char c :: nat) \<le> 13) \<or> (of_char c :: nat) = 32)"

definition lowerChar :: "char \<Rightarrow> char" where
  "lowerChar c = (if isUpper c then char_of ((of_char c :: nat) + 32) else c)"

definition upperChar :: "char \<Rightarrow> char" where
  "upperChar c = (if isLower c then char_of ((of_char c :: nat) - 32) else c)"

definition toLowerCase :: "string \<Rightarrow> string" where
  "toLowerCase s = map lowerChar s"

definition trim :: "string \<Rightarrow> string" where
  "trim s = rev (dropWhile isSpace (rev (dropWhile isSpace s)))"

text \<open>\<open>s.split(c)\<close> for a one-character separator: the empty string gives one empty piece.\<close>

fun split :: "char \<Rightarrow> string \<Rightarrow> string list" where
  "split c [] = [ [] ]"
| "split c (x # xs) =
     (if x = c then [] # split c xs
      else (case split c xs of [] \<Rightarrow> [ [x] ] | h # t \<Rightarrow> (x # h) # t))"

fun startsWith :: "string \<Rightarrow> string \<Rightarrow> bool" where
  "startsWith s [] = True"
| "startsWith [] (k # ks) = False"
| "startsWith (c # cs) (k # ks) = (c = k \<and> startsWith cs ks)"

text \<open>\<open>s.includes(k)\<close>: \<open>k\<close> occurs in \<open>s\<close> as a contiguous piece.\<close>

fun includes_str :: "string \<Rightarrow> string \<Rightarrow> bool" where
  "includes_str [] k = (k = [])"
| "includes_str (c # cs) k = (startsWith (c # cs) k \<or> includes_str cs k)"

text \<open>\<open>xs.join(sep)\<close>.\<close>

fun join :: "string \<Rightarrow> string list \<Rightarrow> string" where
  "join sep [] = []"
| "join sep [x] = x"
| "join sep (x # y # ys) = x @ sep @ join sep (y # ys)"

text \<open>\<open>xs.indexOf(x)\<close>: the first position of \<open>x\<close>, or \<open>-1\<close>.\<close>

fun indexOf :: "'a \<Rightarrow> 'a list \<Rightarrow> int" where
  "indexOf x [] = - 1"
| "indexOf x (y # ys) =
     (if x = y then 0 else (let i = indexOf x ys in if i < 0 then - 1 else i + 1))"

text \<open>The decimal rendering of an integer, as a template literal renders a time value.\<close>

definition digitChar :: "nat \<Rightarrow> char" where
  "digitChar d = char_of (48 + d)"

fun showNat :: "nat \<Rightarrow> string" where
  "showNat n = (if n < 10 then [digitChar n] else showNat (n div 10) @ [digitChar (n mod 10)])"

declare showNat.simps [simp del]

definition showInt :: "int \<Rightarrow> string" where
  "showInt i = (if i < 0 then CHR ''-'' # showNat (nat (- i)) else showNat (nat i))"

section \<open>Regular expressions\<close>

text \<open>
  The script's patterns are kept as syntax trees and matched by derivatives, so that each
  pattern below can be read against the literal in the source.
\<close>

datatype rx = Never | Eps | Cls "char \<Rightarrow> bool" | Seq rx rx | Alt rx rx | Star rx

fun nullable :: "rx \<Rightarrow> bool" where
  "nullable Never = False"
| "nullable Eps = True"
| "nullable (Cls p) = False"
| "nullable (Seq r s) = (nullable r \<and> nullable s)"
| "nullable (Alt r s) = (nullable r \<or> nullable s)"
| "nullable (Star r) = True"

fun seq :: "rx \<Rightarrow> rx \<Rightarrow> rx" where
  "seq Never s = Never"
| "seq Eps s = s"
| "seq r s = Seq r s"

fun alt :: "rx \<Rightarrow> rx \<Rightarrow> rx" where
  "alt Never s = s"
| "alt r Never = r"
| "alt r s = Alt r s"

fun deriv :: "char \<Rightarrow> rx \<Rightarrow> rx" where
  "deriv c Never = Never"
| "deriv c Eps = Never"
| "deriv c (Cls p) = (if p c then Eps else Never)"
| "deriv c (Seq r s) =
     (if nullable r then alt (seq (deriv c r) s) (deriv c s) else seq (deriv c r) s)"
| "deriv c (Alt r s) = alt (deriv c r) (deriv c s)"
| "deriv c (Star r) = seq (deriv c r) (Star r)"

text \<open>The whole string matches the pattern: a pattern written between \<open>^\<close> and \<open>$\<close>.\<close>

fun rxMatch :: "rx \<Rightarrow> string \<Rightarrow> bool" where
  "rxMatch r [] = nullable r"
| "rxMatch r (c # cs) = rxMatch (deriv c r) cs"

definition Opt :: "rx \<Rightarrow> rx" where
  "Opt r = Alt r Eps"

definition Lit :: "char \<Rightarrow> rx" where
  "Lit c = Cls (\<lambda>x. x = c)"

text \<open>A letter of a pattern under the \<open>i\<close> flag.\<close>

definition LitI :: "char \<Rightarrow> rx" where
  "LitI c = Cls (\<lambda>x. lowerChar x = lowerChar c)"

fun WordI :: "string \<Rightarrow> rx" where
  "WordI [] = Eps"
| "WordI (c # cs) = Seq (LitI c) (WordI cs)"

fun Word :: "string \<Rightarrow> rx" where
  "Word [] = Eps"
| "Word (c # cs) = Seq (Lit c) (Word cs)"

text \<open>The dot of a pattern: any character but a line terminator.\<close>

definition Dot :: rx where
  "Dot = Cls (\<lambda>x. (of_char x :: nat) \<noteq> 10 \<and> (of_char x :: nat) \<noteq> 13)"

definition AnyChar :: rx where
  "AnyChar = Cls (\<lambda>x. True)"

text \<open>\<open>pattern.test(s)\<close> for a pattern without anchors: some piece of \<open>s\<close> matches.\<close>

definition rxTest :: "rx \<Rightarrow> string \<Rightarrow> bool" where
  "rxTest r s = rxMatch (Seq (Star AnyChar) (Seq r (Star AnyChar))) s"

section \<open>Validation of a recipient\<close>

definition emailRegex :: rx where
  "emailRegex =
     Seq (Cls isAlnum)
    (Seq (Opt (Seq (Star (Cls (\<lambda>c. isAlnum c \<or> c \<in> set ''._+-''))) (Cls isAlnum)))
    (Seq (Lit CHR ''@'')
    (Seq (Cls isAlnum)
    (Seq (Opt (Seq (Star (Cls (\<lambda>c. isAlnum c \<or> c \<in> set ''.-''))) (Cls isAlnum)))
    (Seq (Lit CHR ''.'')
    (Seq (Cls isAlpha) (Seq (Cls isAlpha) (Star (Cls isAlpha)))))))))"

record validation =
  isValid :: bool
  val_errors :: "string list"

text \<open>
  Both arguments are strings here, so \<open>!email\<close> is the test for the empty string and the
  \<open>typeof\<close> tests pass.
\<close>

definition validateRecipientData :: "string \<Rightarrow> string \<Rightarrow> validation" where
  "validateRecipientData email calendarId =
    (let hasConsecutiveDots = rxTest (Word ''..'') email;
         errors1 =
           (if email = [] \<or> \<not> rxMatch emailRegex email \<or> hasConsecutiveDots
            then [''Invalid email format: \"'' @ email @ ''\"''] else []);
         errors2 =
           (if calendarId = [] \<or> \<not> rxMatch emailRegex calendarId
            then errors1 @ [''Invalid calendar ID format: \"'' @ calendarId @ ''\"'']
            else errors1)
     in \<lparr> isValid = (length errors2 = 0), val_errors = errors2 \<rparr>)"

section \<open>Recipients and the rows of the configuration sheet\<close>

text \<open>A preference that the loader leaves unset is \<open>None\<close>.\<close>

record preferences =
  timezone :: "string option"
  use24Hour :: "bool option"
  dateRange :: "string option"
  frequency :: "string option"
  filterKeywords :: "string list option"

record recipient =
  email :: string
  calendarId :: string
  preferences :: preferences
  isMultiCalendar :: bool
  calendarIndex :: int
  totalCalendars :: nat

text \<open>
  A sheet is a list of rows of text cells. \<open>row[i]\<close> is \<open>undefined\<close> outside the row, and an
  optional column that the header row lacks (index \<open>-1\<close>) reads as \<open>null\<close>: both are \<open>None\<close>.
\<close>

definition cellAt :: "string list \<Rightarrow> int \<Rightarrow> string option" where
  "cellAt row i = (if 0 \<le> i \<and> i < int (length row) then Some (row ! nat i) else None)"

text \<open>\<open>cell && cell.trim()\<close>: the cell, when it is there and has more than white space.\<close>

definition cellText :: "string option \<Rightarrow> string option" where
  "cellText cell =
     (case cell of None \<Rightarrow> None | Some v \<Rightarrow> if v \<noteq> [] \<and> trim v \<noteq> [] then Some v else None)"

definition parsePreferences ::
  "string option \<Rightarrow> string option \<Rightarrow> string option \<Rightarrow> string option \<Rightarrow> string option
    \<Rightarrow> preferences" where
  "parsePreferences tzCell timeFormat dateRangeCell frequencyCell keywordsCell =
    \<lparr> timezone = map_option trim (cellText tzCell),
      use24Hour =
        (case timeFormat of
           None \<Rightarrow> None
         | Some v \<Rightarrow> if v \<noteq> [] \<and> toLowerCase (trim v) = ''24h'' then Some True else None),
      dateRange = map_option (\<lambda>v. toLowerCase (trim v)) (cellText dateRangeCell),
      frequency = map_option (\<lambda>v. toLowerCase (trim v)) (cellText frequencyCell),
      filterKeywords =
        map_option
          (\<lambda>v. filter (\<lambda>keyword. keyword \<noteq> [])
                 (map (\<lambda>keyword. toLowerCase (trim keyword)) (split CHR '','' v)))
          (cellText keywordsCell) \<rparr>"

text \<open>The column positions read from the header row.\<close>

record columns =
  emailColumnIndex :: int
  calendarIdColumnIndex :: int
  timezoneColumnIndex :: int
  timeFormatColumnIndex :: int
  dateRangeColumnIndex :: int
  frequencyColumnIndex :: int
  statusColumnIndex :: int
  filterKeywordsColumnIndex :: int

text \<open>
  The body of the loop over the data rows: the records that one row adds to \<open>recipients\<close>.
  The first validation is of the whole calendar cell, before it is split at the commas.
\<close>

definition parseRow :: "columns \<Rightarrow> string list \<Rightarrow> recipient list" where
  "parseRow cols row =
    (case (cellAt row (emailColumnIndex cols), cellAt row (calendarIdColumnIndex cols)) of
       (Some recipientEmail, Some calendarIdCell) \<Rightarrow>
         if recipientEmail = [] \<or> calendarIdCell = [] then []
         else if \<not> isValid (validateRecipientData recipientEmail calendarIdCell) then []
         else
           (let status = cellAt row (statusColumnIndex cols) in
            if (case status of
                  None \<Rightarrow> False
                | Some v \<Rightarrow> v \<noteq> [] \<and> toLowerCase (trim v) = ''disabled'') then []
            else
              (let prefs = parsePreferences
                     (cellAt row (timezoneColumnIndex cols))
                     (cellAt row (timeFormatColumnIndex cols))
                     (cellAt row (dateRangeColumnIndex cols))
                     (cellAt row (frequencyColumnIndex cols))
                     (cellAt row (filterKeywordsColumnIndex cols));
                   calendarIds = filter (\<lambda>i. i \<noteq> []) (map trim (split CHR '','' calendarIdCell))
               in map (\<lambda>singleCalendarId.
                        \<lparr> email = recipientEmail,
                          calendarId = singleCalendarId,
                          preferences = prefs,
                          isMultiCalendar = (length calendarIds > 1),
                          calendarIndex = indexOf singleCalendarId calendarIds,
                          totalCalendars = length calendarIds \<rparr>)
                    (filter (\<lambda>singleCalendarId.
                        isValid (validateRecipientData recipientEmail singleCalendarId))
                      calendarIds)))
     | _ \<Rightarrow> [])"

text \<open>The column positions of the header row, and the loop over the data rows.\<close>

definition readColumns :: "string list \<Rightarrow> columns" where
  "readColumns headers =
     \<lparr> emailColumnIndex = indexOf ''Recipient Email'' headers,
       calendarIdColumnIndex = indexOf ''Calendar ID'' headers,
       timezoneColumnIndex = indexOf ''Timezone'' headers,
       timeFormatColumnIndex = indexOf ''Time Format'' headers,
       dateRangeColumnIndex = indexOf ''Date Range'' headers,
       frequencyColumnIndex = indexOf ''Frequency'' headers,
       statusColumnIndex = indexOf ''Status'' headers,
       filterKeywordsColumnIndex = indexOf ''Filter Keywords'' headers \<rparr>"

definition parseRecipients :: "columns \<Rightarrow> string list list \<Rightarrow> recipient list" where
  "parseRecipients cols rows = concat (map (parseRow cols) rows)"

section \<open>Dates\<close>

definition msPerDay :: int where
  "msPerDay = 86400000"

text \<open>
  A time zone is the function \<open>LocalTZA(t, isUTC)\<close> of the language definition: the offset
  of local time in milliseconds, at the instant \<open>t\<close> when \<open>isUTC\<close> holds, and at the local
  time value \<open>t\<close> otherwise (a local time that a change of offset skips or repeats is read
  with the offset before the change). \<open>LocalTime\<close> and \<open>UTC\<close> convert with it.
\<close>

type_synonym zone = "int \<Rightarrow> bool \<Rightarrow> int"

definition LocalTime :: "zone \<Rightarrow> int \<Rightarrow> int" where
  "LocalTime tz t = t + tz t True"

definition UTC :: "zone \<Rightarrow> int \<Rightarrow> int" where
  "UTC tz t = t - tz t False"

text \<open>The zone of a constant offset.\<close>

definition fixedZone :: "int \<Rightarrow> zone" where
  "fixedZone k = (\<lambda>t isUTC. k)"

text \<open>The local day number of a time value: days since 1 January 1970, local time.\<close>

definition localDay :: "zone \<Rightarrow> int \<Rightarrow> int" where
  "localDay tz t = LocalTime tz t div msPerDay"

text \<open>The day of the month of a day number, in the Gregorian calendar.\<close>

definition dayOfMonth :: "int \<Rightarrow> int" where
  "dayOfMonth d =
    (let z = d + 719468;
         era = z div 146097;
         doe = z - era * 146097;
         yoe = (doe - doe div 1460 + doe div 36524 - doe div 146096) div 365;
         doy = doe - (365 * yoe + yoe div 4 - yoe div 100);
         mp = (5 * doy + 2) div 153
     in doy - (153 * mp + 2) div 5 + 1)"

text \<open>
  \<open>d.getDate()\<close>, \<open>d.getDay()\<close> (0 is Sunday), \<open>d.setHours(0, 0, 0, 0)\<close> and \<open>d.setDate(n)\<close>.
  The two setters work on the local time value: \<open>setHours\<close> keeps the local day and clears
  the time within the day, \<open>setDate\<close> moves to day \<open>n\<close> of the local month and keeps the
  time within the day; the result is converted back with \<open>UTC\<close>.
\<close>

definition getDate :: "zone \<Rightarrow> int \<Rightarrow> int" where
  "getDate tz t = dayOfMonth (localDay tz t)"

definition getDay :: "zone \<Rightarrow> int \<Rightarrow> int" where
  "getDay tz t = (localDay tz t + 4) mod 7"

definition setHoursZero :: "zone \<Rightarrow> int \<Rightarrow> int" where
  "setHoursZero tz t = UTC tz (localDay tz t * msPerDay)"

definition setDate :: "zone \<Rightarrow> int \<Rightarrow> int \<Rightarrow> int" where
  "setDate tz t n = UTC tz (LocalTime tz t + (n - getDate tz t) * msPerDay)"

section \<open>The frequency gate\<close>

definition shouldSendEmail :: "zone \<Rightarrow> int \<Rightarrow> string \<Rightarrow> bool" where
  "shouldSendEmail tz now freq =
    (let dayOfWeek = getDay tz now in
     if freq = ''daily'' then True
     else if freq = ''weekdays only'' \<or> freq = ''weekdays'' then dayOfWeek \<ge> 1 \<and> dayOfWeek \<le> 5
     else if freq = ''mondays only'' \<or> freq = ''monday'' then dayOfWeek = 1
     else if freq = ''wednesdays only'' \<or> freq = ''wednesday'' then dayOfWeek = 3
     else if freq = ''fridays only'' \<or> freq = ''friday'' then dayOfWeek = 5
     else if freq = ''weekends only'' \<or> freq = ''weekends'' then dayOfWeek = 0 \<or> dayOfWeek = 6
     else if freq = ''never'' \<or> freq = ''disabled'' then False
     else True)"

section \<open>The date range of a preference\<close>

record date_range =
  startDate :: int
  endDate :: int
  description :: string

definition calculateDateRange :: "zone \<Rightarrow> int \<Rightarrow> string \<Rightarrow> date_range" where
  "calculateDateRange tz now pref =
    (let today = setHoursZero tz now in
     if pref = ''today'' then
       \<lparr> startDate = today, endDate = setDate tz today (getDate tz today + 1),
         description = ''today'' \<rparr>
     else if pref = ''tomorrow'' then
       \<lparr> startDate = setDate tz today (getDate tz today + 1),
         endDate = setDate tz today (getDate tz today + 2),
         description = ''tomorrow'' \<rparr>
     else if pref = ''next 3 days'' \<or> pref = ''next3days'' then
       \<lparr> startDate = today, endDate = setDate tz today (getDate tz today + 3),
         description = ''the next 3 days'' \<rparr>
     else if pref = ''this week'' \<or> pref = ''thisweek'' then
       (let dayOfWeek = getDay tz today;
            start = setDate tz today (getDate tz today - dayOfWeek)
        in \<lparr> startDate = start, endDate = setDate tz today (getDate tz start + 7),
             description = ''this week'' \<rparr>)
     else if pref = ''next week'' \<or> pref = ''nextweek'' then
       (let nextWeekStart = setDate tz today (getDate tz today + (7 - getDay tz today))
        in \<lparr> startDate = nextWeekStart,
             endDate = setDate tz nextWeekStart (getDate tz nextWeekStart + 7),
             description = ''next week'' \<rparr>)
     else if pref = ''weekdays only'' \<or> pref = ''weekdays'' then
       \<lparr> startDate = today, endDate = setDate tz today (getDate tz today + 1),
         description = ''today (weekdays only)'' \<rparr>
     else
       \<lparr> startDate = today, endDate = setDate tz today (getDate tz today + 1),
         description = ''today'' \<rparr>)"

section \<open>Events and the keyword filter\<close>

record event =
  getTitle :: string
  getDescription :: string
  getLocation :: string
  getStartTime :: int
  getEndTime :: int

definition eventText :: "event \<Rightarrow> string" where
  "eventText ev =
     toLowerCase (getTitle ev) @ '' '' @ toLowerCase (getDescription ev) @ '' ''
       @ toLowerCase (getLocation ev)"

definition includeKeywords :: "string list \<Rightarrow> string list" where
  "includeKeywords kws = map toLowerCase (filter (\<lambda>k. \<not> startsWith k ''-'') kws)"

definition excludeKeywords :: "string list \<Rightarrow> string list" where
  "excludeKeywords kws = map (\<lambda>k. toLowerCase (drop 1 k)) (filter (\<lambda>k. startsWith k ''-'') kws)"

text \<open>The keyword list is \<open>None\<close> when the caller passes \<open>null\<close> or nothing.\<close>

definition filterEventsByKeywords :: "event list \<Rightarrow> string list option \<Rightarrow> event list" where
  "filterEventsByKeywords events kwsOpt =
    (case kwsOpt of
       None \<Rightarrow> events
     | Some kws \<Rightarrow>
         if length kws = 0 then events
         else filter (\<lambda>ev.
                (let includesMatch =
                       (length (includeKeywords kws) = 0
                        \<or> list_all (\<lambda>keyword. includes_str (eventText ev) keyword)
                             (includeKeywords kws));
                     excludesMatch =
                       list_all (\<lambda>keyword. \<not> includes_str (eventText ev) keyword)
                         (excludeKeywords kws)
                 in includesMatch \<and> excludesMatch)) events)"

section \<open>The platform\<close>

datatype jsError = Error (message: string)

record calendar =
  calendarRef :: string
  getName :: string

record email_content =
  htmlBody :: string
  textBody :: string

text \<open>
  The services of the platform act on a state \<open>'s\<close> of the outside world. The template
  function \<open>generateEmailBody\<close> is a field as well: its text depends on the locale formatting
  of the platform, and only its arguments matter below.
\<close>

record 's platform =
  mathRandom :: "'s \<Rightarrow> real \<times> 's"
  utilitiesSleep :: "real \<Rightarrow> 's \<Rightarrow> 's"
  getCalendarById :: "string \<Rightarrow> 's \<Rightarrow> (jsError + calendar option) \<times> 's"
  getEvents :: "calendar \<Rightarrow> int \<Rightarrow> int \<Rightarrow> 's \<Rightarrow> (jsError + event list) \<times> 's"
  gmailSendEmail :: "string \<Rightarrow> string \<Rightarrow> string \<Rightarrow> string option \<Rightarrow> 's \<Rightarrow> (jsError + unit) \<times> 's"
  mailSendEmail :: "string \<Rightarrow> string \<Rightarrow> string \<Rightarrow> 's \<Rightarrow> (jsError + unit) \<times> 's"
  configGet :: "string \<Rightarrow> 's \<Rightarrow> string option \<times> 's"
  openConfigSheet :: "string \<Rightarrow> string \<Rightarrow> 's \<Rightarrow> (jsError + bool) \<times> 's"
  getValues :: "string \<Rightarrow> string \<Rightarrow> 's \<Rightarrow> (jsError + string list list) \<times> 's"
  activeUserEmail :: "'s \<Rightarrow> (jsError + string) \<times> 's"
  generateEmailBody ::
    "string \<Rightarrow> string option \<Rightarrow> event list \<Rightarrow> preferences \<Rightarrow> date_range \<Rightarrow> email_content"

section \<open>Retry with backoff\<close>

definition retryablePatterns :: "rx list" where
  "retryablePatterns =
    [WordI ''service is currently unavailable'',
     WordI ''temporary failure'',
     WordI ''rate limit'',
     Seq (WordI ''quota'') (Seq (Star Dot) (WordI ''exceeded'')),
     WordI ''timeout'',
     Seq (WordI ''network'') (Seq (Star Dot) (WordI ''error'')),
     Seq (WordI ''internal'') (Seq (Star Dot) (WordI ''error'')),
     Seq (WordI ''service'') (Seq (Star Dot) (WordI ''error''))]"

definition isRetryableError :: "jsError \<Rightarrow> bool" where
  "isRetryableError error = list_ex (\<lambda>pattern. rxTest pattern (message error)) retryablePatterns"

text \<open>
  The loop of \<open>retryOperation\<close>, from a given value of \<open>attempt\<close>. The branch after the loop
  throws \<open>lastError\<close>, which is \<open>undefined\<close> when the loop body never ran.
\<close>

function retryLoop ::
  "'s platform \<Rightarrow> ('s \<Rightarrow> (jsError + 'a) \<times> 's) \<Rightarrow> nat \<Rightarrow> real \<Rightarrow> nat \<Rightarrow> jsError option \<Rightarrow> 's
    \<Rightarrow> (jsError + 'a) \<times> 's" where
  "retryLoop P operation maxRetries baseDelay attempt lastError s =
    (if attempt \<le> maxRetries then
       (case operation s of
          (Inr v, s1) \<Rightarrow> (Inr v, s1)
        | (Inl error, s1) \<Rightarrow>
            if \<not> isRetryableError error \<or> attempt = maxRetries then (Inl error, s1)
            else
              (case mathRandom P s1 of
                 (r, s2) \<Rightarrow>
                   (let delay = baseDelay * 2 ^ attempt + r * 1000
                    in retryLoop P operation maxRetries baseDelay (attempt + 1) (Some error)
                         (utilitiesSleep P delay s2))))
     else (case lastError of
             Some e \<Rightarrow> (Inl e, s)
           | None \<Rightarrow> (Inl (Error ''undefined''), s)))"
  by pat_completeness auto
termination
  by (relation "measure (\<lambda>(P, operation, maxRetries, baseDelay, attempt, lastError, s).
        Suc maxRetries - attempt)") auto

declare retryLoop.simps [simp del]

definition retryOperation ::
  "'s platform \<Rightarrow> ('s \<Rightarrow> (jsError + 'a) \<times> 's) \<Rightarrow> nat \<Rightarrow> real \<Rightarrow> 's \<Rightarrow> (jsError + 'a) \<times> 's" where
  "retryOperation P operation maxRetries baseDelay s =
     retryLoop P operation maxRetries baseDelay 0 None s"

text \<open>The call with the default arguments, \<open>maxRetries = 3\<close> and \<open>baseDelay = 1000\<close>.\<close>

definition retryOperationDefault ::
  "'s platform \<Rightarrow> ('s \<Rightarrow> (jsError + 'a) \<times> 's) \<Rightarrow> 's \<Rightarrow> (jsError + 'a) \<times> 's" where
  "retryOperationDefault P operation s = retryOperation P operation 3 1000 s"

section \<open>The execution tracker\<close>

text \<open>An error entry; its time stamp is left out, and so is the tracker's start time.\<close>

record error_entry =
  err_message :: string
  err_context :: string

record metrics =
  calendarsProcessed :: nat
  eventsFound :: nat
  emailsSent :: nat
  emailsFailed :: nat
  retriesPerformed :: nat
  errors :: "error_entry list"

definition newExecutionTracker :: metrics where
  "newExecutionTracker =
     \<lparr> calendarsProcessed = 0, eventsFound = 0, emailsSent = 0, emailsFailed = 0,
       retriesPerformed = 0, errors = [] \<rparr>"

definition incrementCalendars :: "metrics \<Rightarrow> metrics" where
  "incrementCalendars m = m\<lparr> calendarsProcessed := calendarsProcessed m + 1 \<rparr>"

definition addEvents :: "nat \<Rightarrow> metrics \<Rightarrow> metrics" where
  "addEvents count m = m\<lparr> eventsFound := eventsFound m + count \<rparr>"

definition incrementEmailsSent :: "metrics \<Rightarrow> metrics" where
  "incrementEmailsSent m = m\<lparr> emailsSent := emailsSent m + 1 \<rparr>"

definition incrementEmailsFailed :: "metrics \<Rightarrow> metrics" where
  "incrementEmailsFailed m = m\<lparr> emailsFailed := emailsFailed m + 1 \<rparr>"

definition incrementRetries :: "metrics \<Rightarrow> metrics" where
  "incrementRetries m = m\<lparr> retriesPerformed := retriesPerformed m + 1 \<rparr>"

definition addError :: "jsError \<Rightarrow> string \<Rightarrow> metrics \<Rightarrow> metrics" where
  "addError error ctxt m =
     m\<lparr> errors := errors m @ [\<lparr> err_message = message error, err_context = ctxt \<rparr>] \<rparr>"

record quota_usage =
  calendarReads :: nat
  emailSends :: nat
  sheetReads :: nat
  totalApiCalls :: nat

definition getQuotaUsageEstimate :: "metrics \<Rightarrow> quota_usage" where
  "getQuotaUsageEstimate m =
    (let calendarReads = calendarsProcessed m * 2;
         emailSends = emailsSent m + emailsFailed m;
         sheetReads = 1
     in \<lparr> calendarReads = calendarReads, emailSends = emailSends, sheetReads = sheetReads,
          totalApiCalls = calendarReads + emailSends + sheetReads \<rparr>)"

definition formatDuration :: "nat \<Rightarrow> string" where
  "formatDuration ms =
    (let seconds = ms div 1000;
         minutes = seconds div 60
     in if minutes > 0 then showNat minutes @ ''m '' @ showNat (seconds mod 60) @ ''s''
        else showNat seconds @ ''s'')"

record summary =
  executionTimeMs :: nat
  executionTimeFormatted :: string
  sum_metrics :: metrics
  quotaUsage :: quota_usage
  success :: bool

text \<open>\<open>getSummary\<close>, given the elapsed time that \<open>getExecutionTime\<close> reads from the clock.\<close>

definition getSummary :: "nat \<Rightarrow> metrics \<Rightarrow> summary" where
  "getSummary executionTime m =
     \<lparr> executionTimeMs = executionTime,
       executionTimeFormatted = formatDuration executionTime,
       sum_metrics = m,
       quotaUsage = getQuotaUsageEstimate m,
       success = (length (errors m) = 0 \<and> emailsFailed m = 0) \<rparr>"

section \<open>Objects as dictionaries\<close>

text \<open>\<open>obj[key] = value\<close>: the value of a present key is replaced in place, a new key is added last.\<close>

fun objSet :: "string \<Rightarrow> 'v \<Rightarrow> (string \<times> 'v) list \<Rightarrow> (string \<times> 'v) list" where
  "objSet k v [] = [(k, v)]"
| "objSet k v (p # ps) = (if fst p = k then (k, v) # ps else p # objSet k v ps)"

text \<open>\<open>value || fallback\<close> for an optional string: an absent or empty value gives the fallback.\<close>

definition orElse :: "string option \<Rightarrow> string \<Rightarrow> string" where
  "orElse v fallback = (case v of None \<Rightarrow> fallback | Some x \<Rightarrow> if x = [] then fallback else x)"

section \<open>The calendar batcher\<close>

record calendar_group =
  grp_calendarId :: string
  grp_dateRange :: date_range
  grp_recipients :: "recipient list"

record calendar_data =
  cd_calendar :: "calendar option"
  cd_events :: "event list"
  cd_recipients :: "recipient list"
  cd_dateRange :: date_range
  cd_success :: bool
  cd_error :: "string option"

definition recipientDateRange :: "zone \<Rightarrow> int \<Rightarrow> recipient \<Rightarrow> date_range" where
  "recipientDateRange tz now r = calculateDateRange tz now (orElse (dateRange (preferences r)) ''today'')"

definition makeGroupKey :: "string \<Rightarrow> date_range \<Rightarrow> string" where
  "makeGroupKey cid dr = cid @ ''|'' @ showInt (startDate dr) @ ''|'' @ showInt (endDate dr)"


text \<open>The body of the grouping loop.\<close>

definition addToGroups ::
  "zone \<Rightarrow> int \<Rightarrow> (string \<times> calendar_group) list \<Rightarrow> recipient \<Rightarrow> (string \<times> calendar_group) list" where
  "addToGroups tz now calendarGroups r =
    (let dr = recipientDateRange tz now r;
         key = makeGroupKey (calendarId r) dr;
         created =
           (case map_of calendarGroups key of
              None \<Rightarrow> \<lparr> grp_calendarId = calendarId r, grp_dateRange = dr, grp_recipients = [] \<rparr>
            | Some g \<Rightarrow> g)
     in objSet key (created\<lparr> grp_recipients := grp_recipients created @ [r] \<rparr>) calendarGroups)"

text \<open>The two operations handed to \<open>retryOperation\<close> for a group.\<close>

definition lookupCalendar :: "'s platform \<Rightarrow> string \<Rightarrow> 's \<Rightarrow> (jsError + calendar) \<times> 's" where
  "lookupCalendar P cid s =
    (case getCalendarById P cid s of
       (Inl e, s1) \<Rightarrow> (Inl e, s1)
     | (Inr None, s1) \<Rightarrow> (Inl (Error (''Calendar with ID \"'' @ cid @ ''\" not found.'')), s1)
     | (Inr (Some c), s1) \<Rightarrow> (Inr c, s1))"

definition failedGroup ::
  "string \<Rightarrow> calendar_group \<Rightarrow> jsError \<Rightarrow> (string \<times> calendar_data) list \<times> metrics
    \<Rightarrow> (string \<times> calendar_data) list \<times> metrics" where
  "failedGroup key g e cm =
    (case cm of (calendarCache, tracker) \<Rightarrow>
      (objSet key
         \<lparr> cd_calendar = None, cd_events = [], cd_recipients = grp_recipients g,
           cd_dateRange = grp_dateRange g, cd_success = False, cd_error = Some (message e) \<rparr>
         calendarCache,
       addError e (''Accessing calendar '' @ grp_calendarId g) tracker))"

text \<open>The body of the loop over the groups: one group is fetched and its outcome cached.\<close>

definition fetchGroup ::
  "'s platform \<Rightarrow> ((string \<times> calendar_data) list \<times> metrics) \<times> 's \<Rightarrow> string \<times> calendar_group
    \<Rightarrow> ((string \<times> calendar_data) list \<times> metrics) \<times> 's" where
  "fetchGroup P st kg =
    (case (st, kg) of ((cm, s), (key, g)) \<Rightarrow>
      (case retryOperationDefault P (lookupCalendar P (grp_calendarId g)) s of
         (Inl e, s1) \<Rightarrow> (failedGroup key g e cm, s1)
       | (Inr targetCalendar, s1) \<Rightarrow>
           (case retryOperationDefault P
                   (getEvents P targetCalendar (startDate (grp_dateRange g)) (endDate (grp_dateRange g))) s1 of
              (Inl e, s2) \<Rightarrow> (failedGroup key g e cm, s2)
            | (Inr events, s2) \<Rightarrow>
                ((objSet key
                    \<lparr> cd_calendar = Some targetCalendar, cd_events = events,
                      cd_recipients = grp_recipients g, cd_dateRange = grp_dateRange g,
                      cd_success = True, cd_error = None \<rparr>
                    (fst cm),
                  addEvents (length events) (incrementCalendars (snd cm))), s2))))"

definition activeRecipients :: "zone \<Rightarrow> int \<Rightarrow> recipient list \<Rightarrow> recipient list" where
  "activeRecipients tz now recipients =
     filter (\<lambda>r. shouldSendEmail tz now (orElse (frequency (preferences r)) ''daily'')) recipients"

definition calendarGroupsOf :: "zone \<Rightarrow> int \<Rightarrow> recipient list \<Rightarrow> (string \<times> calendar_group) list" where
  "calendarGroupsOf tz now recipients = foldl (addToGroups tz now) [] (activeRecipients tz now recipients)"

definition fetchCalendarDataBatched ::
  "'s platform \<Rightarrow> zone \<Rightarrow> int \<Rightarrow> recipient list \<Rightarrow> metrics \<Rightarrow> 's
    \<Rightarrow> ((string \<times> calendar_data) list \<times> metrics) \<times> 's" where
  "fetchCalendarDataBatched P tz now recipients tracker s =
     foldl (fetchGroup P) (([], tracker), s) (calendarGroupsOf tz now recipients)"

section \<open>The batch sender\<close>

text \<open>A queued message; \<open>options\<close> holds the markup body when the message has one.\<close>

record email_data =
  to :: string
  subject :: string
  body :: string
  options :: "string option"

text \<open>The body of \<open>batch.forEach\<close>: the primary channel, then the fallback.\<close>

definition sendOne :: "'s platform \<Rightarrow> metrics \<times> 's \<Rightarrow> email_data \<Rightarrow> metrics \<times> 's" where
  "sendOne P st emailData =
    (case st of (tracker, s) \<Rightarrow>
      (case retryOperationDefault P
              (gmailSendEmail P (to emailData) (subject emailData) (body emailData) (options emailData)) s of
         (Inr u, s1) \<Rightarrow> (incrementEmailsSent tracker, s1)
       | (Inl e, s1) \<Rightarrow>
           (let tracker1 = addError e (''Sending email to '' @ to emailData) tracker in
            case retryOperationDefault P
                   (mailSendEmail P (to emailData) (subject emailData) (body emailData)) s1 of
              (Inr u, s2) \<Rightarrow> (incrementEmailsSent tracker1, s2)
            | (Inl fallbackError, s2) \<Rightarrow>
                (addError fallbackError (''Fallback email to '' @ to emailData)
                   (incrementEmailsFailed tracker1), s2))))"

definition BATCH_SIZE :: nat where
  "BATCH_SIZE = 10"

definition DELAY_BETWEEN_BATCHES :: real where
  "DELAY_BETWEEN_BATCHES = 100"

function sendBatchesFrom ::
  "'s platform \<Rightarrow> email_data list \<Rightarrow> nat \<Rightarrow> metrics \<times> 's \<Rightarrow> metrics \<times> 's" where
  "sendBatchesFrom P emailQueue i st =
    (if i < length emailQueue then
       (let batch = take BATCH_SIZE (drop i emailQueue);
            st1 = foldl (sendOne P) st batch;
            st2 = (if i + BATCH_SIZE < length emailQueue
                   then (fst st1, utilitiesSleep P DELAY_BETWEEN_BATCHES (snd st1)) else st1)
        in sendBatchesFrom P emailQueue (i + BATCH_SIZE) st2)
     else st)"
  by pat_completeness auto
termination
  by (relation "measure (\<lambda>(P, emailQueue, i, st). length emailQueue - i)")
     (auto simp: BATCH_SIZE_def)

declare sendBatchesFrom.simps [simp del]

definition sendEmailsBatched :: "'s platform \<Rightarrow> email_data list \<Rightarrow> metrics \<Rightarrow> 's \<Rightarrow> metrics \<times> 's" where
  "sendEmailsBatched P emailQueue tracker s = sendBatchesFrom P emailQueue 0 (tracker, s)"

section \<open>Reconciliation by recipient and the message queue\<close>

record calendar_source =
  src_calendar :: "calendar option"
  src_events :: "event list"

record source_error =
  se_calendarId :: string
  se_error :: "string option"

record recipient_data =
  rd_recipient :: recipient
  rd_calendars :: "calendar_source list"
  rd_dateRange :: date_range
  hasErrors :: bool
  rd_errors :: "source_error list"

text \<open>The entry created for an address met for the first time.\<close>

definition newEntry :: "calendar_data \<Rightarrow> recipient \<Rightarrow> recipient_data" where
  "newEntry d r = \<lparr> rd_recipient = r, rd_calendars = [], rd_dateRange = cd_dateRange d,
                     hasErrors = False, rd_errors = [] \<rparr>"

text \<open>The outcome of a group added to an entry: a calendar source, or an error.\<close>

definition addSource :: "calendar_data \<Rightarrow> recipient_data \<Rightarrow> recipient_data" where
  "addSource d entry =
     (if cd_success d
      then entry\<lparr> rd_calendars := rd_calendars entry
                    @ [\<lparr> src_calendar = cd_calendar d, src_events = cd_events d \<rparr>] \<rparr>
      else entry\<lparr> hasErrors := True,
                   rd_errors := rd_errors entry
                     @ [\<lparr> se_calendarId =
                            (case cd_calendar d of Some c \<Rightarrow> getName c | None \<Rightarrow> ''Unknown''),
                          se_error = cd_error d \<rparr>] \<rparr>)"

text \<open>
  The body of the inner loop: the entry of the recipient's address is created when missing,
  then extended by the outcome of the group.
\<close>

definition reconcileRecipient ::
  "calendar_data \<Rightarrow> (string \<times> recipient_data) list \<Rightarrow> recipient \<Rightarrow> (string \<times> recipient_data) list" where
  "reconcileRecipient d recipientData r =
     objSet (email r)
       (addSource d (case map_of recipientData (email r) of
                       None \<Rightarrow> newEntry d r
                     | Some entry \<Rightarrow> entry))
       recipientData"

definition reconcileGroup ::
  "(string \<times> recipient_data) list \<Rightarrow> string \<times> calendar_data \<Rightarrow> (string \<times> recipient_data) list" where
  "reconcileGroup recipientData kd = foldl (reconcileRecipient (snd kd)) recipientData (cd_recipients (snd kd))"

definition reconcile :: "(string \<times> calendar_data) list \<Rightarrow> (string \<times> recipient_data) list" where
  "reconcile calendarData = foldl reconcileGroup [] calendarData"

definition errorNoticeSubject :: string where
  "errorNoticeSubject = ''Calendar Summary Error: Calendars Not Found''"

text \<open>\<open>recipientEmail.split('@')[0]\<close>.\<close>

definition localPart :: "string \<Rightarrow> string" where
  "localPart recipientEmail = (case split CHR ''@'' recipientEmail of [] \<Rightarrow> [] | h # t \<Rightarrow> h)"

definition errorNotice :: "string \<Rightarrow> recipient_data \<Rightarrow> email_data" where
  "errorNotice recipientEmail d =
     \<lparr> to = recipientEmail,
       subject = errorNoticeSubject,
       body = ''Hello '' @ localPart recipientEmail @ '','' @ [CHR 0x0A, CHR 0x0A]
         @ ''Your daily calendar summary could not be generated because calendars were not found or accessible. Please check the Calendar IDs in the configuration sheet.''
         @ [CHR 0x0A, CHR 0x0A] @ ''Errors: ''
         @ join '', '' (map (\<lambda>e. case se_error e of Some m \<Rightarrow> m | None \<Rightarrow> []) (rd_errors d)),
       options = None \<rparr>"

text \<open>The events of a normal summary: merged, filtered when keywords are set, sorted by start.\<close>

definition summaryEvents :: "recipient_data \<Rightarrow> event list" where
  "summaryEvents d =
    (let allEvents = concat (map src_events (rd_calendars d));
         filtered =
           (case filterKeywords (preferences (rd_recipient d)) of
              None \<Rightarrow> allEvents
            | Some kws \<Rightarrow> filterEventsByKeywords allEvents (Some kws))
     in sort_key getStartTime filtered)"

definition summarySubject :: "date_range \<Rightarrow> string" where
  "summarySubject dr =
    (if description dr \<noteq> ''today''
     then ''Your Events '' @ map upperChar (take 1 (description dr)) @ drop 1 (description dr)
     else ''Your Events for the Day'')"

text \<open>The normal summary message of a recipient whose calendars all have a name.\<close>

definition summaryMessage :: "'s platform \<Rightarrow> string \<Rightarrow> recipient_data \<Rightarrow> email_data" where
  "summaryMessage P recipientEmail d =
    (let calendarNames =
           concat (map (\<lambda>c. case src_calendar c of Some cal \<Rightarrow> [getName cal] | None \<Rightarrow> [])
                    (rd_calendars d));
         calendarDisplayName =
           (if length calendarNames > 1 then Some (showNat (length calendarNames) @ '' calendars'')
            else (case calendarNames of [] \<Rightarrow> None | n # ns \<Rightarrow> Some n));
         emailContent = generateEmailBody P recipientEmail calendarDisplayName (summaryEvents d)
                          (preferences (rd_recipient d)) (rd_dateRange d)
     in \<lparr> to = recipientEmail, subject = summarySubject (rd_dateRange d),
          body = textBody emailContent, options = Some (htmlBody emailContent) \<rparr>)"

text \<open>
  The body of the loop over the reconciled recipients: the message it queues, or the
  \<open>TypeError\<close> of reading the name of a calendar that is \<open>null\<close>.
\<close>

definition queueEntry :: "'s platform \<Rightarrow> string \<times> recipient_data \<Rightarrow> jsError + email_data" where
  "queueEntry P kd =
    (case kd of (recipientEmail, d) \<Rightarrow>
      if hasErrors d \<and> length (rd_calendars d) = 0 then Inr (errorNotice recipientEmail d)
      else if list_ex (\<lambda>c. src_calendar c = None) (rd_calendars d)
      then Inl (Error ''Cannot read properties of null (reading 'getName')'')
      else Inr (summaryMessage P recipientEmail d))"

fun buildEmailQueue ::
  "'s platform \<Rightarrow> (string \<times> recipient_data) list \<Rightarrow> email_data list \<Rightarrow> jsError + email_data list" where
  "buildEmailQueue P [] emailQueue = Inr emailQueue"
| "buildEmailQueue P (kd # rest) emailQueue =
     (case queueEntry P kd of
        Inl e \<Rightarrow> Inl e
      | Inr m \<Rightarrow> buildEmailQueue P rest (emailQueue @ [m]))"

section \<open>The administrator's report\<close>

text \<open>The report text; the emoji and bullet glyphs of the source's literals are left out.\<close>

fun errorLines :: "nat \<Rightarrow> error_entry list \<Rightarrow> string" where
  "errorLines index [] = []"
| "errorLines index (e # es) =
     showNat (index + 1) @ ''. ['' @ err_context e @ ''] '' @ err_message e @ [CHR 0x0A]
       @ errorLines (index + 1) es"

definition generateAdminSummary :: "summary \<Rightarrow> string" where
  "generateAdminSummary sm =
    (let m = sum_metrics sm; q = quotaUsage sm in
       ''Daily Calendar Summary Script - Execution Report'' @ [CHR 0x0A, CHR 0x0A]
     @ ''Status: '' @ (if success sm then ''SUCCESS'' else ''FAILED'') @ [CHR 0x0A]
     @ ''Execution Time: '' @ executionTimeFormatted sm @ [CHR 0x0A, CHR 0x0A]
     @ ''METRICS:'' @ [CHR 0x0A]
     @ ''Calendars Processed: '' @ showNat (calendarsProcessed m) @ [CHR 0x0A]
     @ ''Events Found: '' @ showNat (eventsFound m) @ [CHR 0x0A]
     @ ''Emails Sent: '' @ showNat (emailsSent m) @ [CHR 0x0A]
     @ ''Email Failures: '' @ showNat (emailsFailed m) @ [CHR 0x0A]
     @ ''Retries Performed: '' @ showNat (retriesPerformed m) @ [CHR 0x0A, CHR 0x0A]
     @ ''QUOTA USAGE ESTIMATE:'' @ [CHR 0x0A]
     @ ''Calendar API Reads: '' @ showNat (calendarReads q) @ [CHR 0x0A]
     @ ''Email Sends: '' @ showNat (emailSends q) @ [CHR 0x0A]
     @ ''Sheet Reads: '' @ showNat (sheetReads q) @ [CHR 0x0A]
     @ ''Total API Calls: '' @ showNat (totalApiCalls q) @ [CHR 0x0A, CHR 0x0A]
     @ (if length (errors m) > 0
        then ''ERRORS ('' @ showNat (length (errors m)) @ ''):'' @ [CHR 0x0A]
             @ errorLines 0 (errors m) @ [CHR 0x0A]
        else [])
     @ [CHR 0x0A] @ ''Generated by Calendar Summary Script'')"

section \<open>Loading the configuration\<close>

record config =
  recipients :: "recipient list"
  spreadsheetId :: string
  sheetName :: string

text \<open>
  The mail to the script's owner that precedes a \<open>null\<close> result. A failure of the mail
  itself is thrown to the caller.
\<close>

definition notifyOwner :: "'s platform \<Rightarrow> string \<Rightarrow> string \<Rightarrow> 's \<Rightarrow> (jsError + config option) \<times> 's" where
  "notifyOwner P subj text s =
    (case activeUserEmail P s of
       (Inl e, s1) \<Rightarrow> (Inl e, s1)
     | (Inr owner, s1) \<Rightarrow>
         (case mailSendEmail P owner subj text s1 of
            (Inl e, s2) \<Rightarrow> (Inl e, s2)
          | (Inr u, s2) \<Rightarrow> (Inr None, s2)))"

definition loadConfiguration :: "'s platform \<Rightarrow> 's \<Rightarrow> (jsError + config option) \<times> 's" where
  "loadConfiguration P s =
    (case configGet P ''SPREADSHEET_ID'' s of (idOpt, s1) \<Rightarrow>
     case configGet P ''CONFIG_SHEET_NAME'' s1 of (nameOpt, s2) \<Rightarrow>
      (let SPREADSHEET_ID = (case idOpt of None \<Rightarrow> [] | Some v \<Rightarrow> v);
           CONFIG_SHEET_NAME = (case nameOpt of None \<Rightarrow> ''Config'' | Some v \<Rightarrow> v)
       in if SPREADSHEET_ID = [] then (Inl (Error ''SPREADSHEET_ID not configured!''), s2)
          else
            (case openConfigSheet P SPREADSHEET_ID CONFIG_SHEET_NAME s2 of
               (Inl e, s3) \<Rightarrow>
                 notifyOwner P ''CRITICAL: Calendar Summary Script Failure''
                   (''The daily calendar summary script failed to access its configuration sheet. Please check the SPREADSHEET_ID and CONFIG_SHEET_NAME in the script. Error: ''
                      @ message e) s3
             | (Inr False, s3) \<Rightarrow>
                 notifyOwner P ''CRITICAL: Calendar Summary Script Failure''
                   (''The daily calendar summary script failed to access its configuration sheet. Please check the SPREADSHEET_ID and CONFIG_SHEET_NAME in the script. Error: ''
                      @ ''Configuration sheet named \"'' @ CONFIG_SHEET_NAME
                      @ ''\" not found in spreadsheet ID \"'' @ SPREADSHEET_ID @ ''\".'') s3
             | (Inr True, s3) \<Rightarrow>
                 (case getValues P SPREADSHEET_ID CONFIG_SHEET_NAME s3 of
                    (Inl e, s4) \<Rightarrow> (Inl e, s4)
                  | (Inr configData, s4) \<Rightarrow>
                      if length configData < 2 then (Inr None, s4)
                      else
                        (let cols = readColumns (hd configData) in
                         if emailColumnIndex cols = - 1 \<or> calendarIdColumnIndex cols = - 1
                         then notifyOwner P ''ERROR: Calendar Summary Script - Missing Columns''
                                (''The daily calendar summary script failed because the configuration sheet is missing required columns. Please ensure 'Recipient Email' and 'Calendar ID' columns exist in sheet \"''
                                   @ CONFIG_SHEET_NAME @ ''\".'') s4
                         else (Inr (Some \<lparr> recipients = parseRecipients cols (tl configData),
                                            spreadsheetId = SPREADSHEET_ID,
                                            sheetName = CONFIG_SHEET_NAME \<rparr>), s4))))))"

section \<open>The main function\<close>

text \<open>
  The \<open>try\<close> block after a configuration was loaded: fetch, reconcile, queue and send. An
  exception of the queue building is caught by the main function, which records it.
\<close>

definition processRecipients ::
  "'s platform \<Rightarrow> zone \<Rightarrow> int \<Rightarrow> recipient list \<Rightarrow> metrics \<Rightarrow> 's \<Rightarrow> metrics \<times> 's" where
  "processRecipients P tz now rs tracker s =
    (case fetchCalendarDataBatched P tz now rs tracker s of
       ((calendarData, tracker1), s1) \<Rightarrow>
         (case buildEmailQueue P (reconcile calendarData) [] of
            Inl e \<Rightarrow> (addError e ''Main execution'' tracker1, s1)
          | Inr emailQueue \<Rightarrow>
              if length emailQueue > 0 then sendEmailsBatched P emailQueue tracker1 s1
              else (tracker1, s1)))"

record 's run_result =
  run_tracker :: metrics
  run_summary :: "summary option"
  run_report :: "string option"
  run_state :: 's

text \<open>The end of the main function: the summary, the report and its mail to the owner.\<close>

definition reportRun :: "'s platform \<Rightarrow> nat \<Rightarrow> metrics \<times> 's \<Rightarrow> 's run_result" where
  "reportRun P executionTime st =
    (case st of (tracker, s) \<Rightarrow>
      (let sm = getSummary executionTime tracker;
           adminSummaryBody = generateAdminSummary sm;
           s2 = (case activeUserEmail P s of
                   (Inl e, s1) \<Rightarrow> s1
                 | (Inr owner, s1) \<Rightarrow>
                     snd (mailSendEmail P owner
                            (''Calendar Summary Script Report - ''
                               @ (if success sm then ''SUCCESS'' else ''FAILED''))
                            adminSummaryBody s1))
       in \<lparr> run_tracker = tracker, run_summary = Some sm, run_report = Some adminSummaryBody,
            run_state = s2 \<rparr>))"

text \<open>
  \<open>sendDailyEventSummary\<close>, at the instant \<open>now\<close> in the zone \<open>tz\<close>, with the elapsed time
  that the summary reads. When the loader returns \<open>null\<close> the function returns at once,
  without a summary.
\<close>

definition sendDailyEventSummary :: "'s platform \<Rightarrow> zone \<Rightarrow> int \<Rightarrow> nat \<Rightarrow> 's \<Rightarrow> 's run_result" where
  "sendDailyEventSummary P tz now executionTime s =
    (let tracker = newExecutionTracker in
     case loadConfiguration P s of
       (Inl e, s1) \<Rightarrow> reportRun P executionTime (addError e ''Main execution'' tracker, s1)
     | (Inr None, s1) \<Rightarrow>
         \<lparr> run_tracker = addError (Error ''Failed to load configuration'') ''Configuration loading'' tracker,
           run_summary = None, run_report = None, run_state = s1 \<rparr>
     | (Inr (Some cfg), s1) \<Rightarrow>
         reportRun P executionTime (processRecipients P tz now (recipients cfg) tracker s1))"

section \<open>Notions used in the statements\<close>


text \<open>
  The retention rule of the keyword filter in the words of the specification, the tokens
  taken as they are given; and the same rule with every token lower-cased first.
\<close>

definition retainedAsStated :: "event \<Rightarrow> string list \<Rightarrow> bool" where
  "retainedAsStated ev kws =
    (let includeTokens = filter (\<lambda>k. \<not> startsWith k ''-'') kws;
         excludeTokens = map (drop 1) (filter (\<lambda>k. startsWith k ''-'') kws)
     in (includeTokens = [] \<or> list_all (\<lambda>k. includes_str (eventText ev) k) includeTokens)
        \<and> list_all (\<lambda>k. \<not> includes_str (eventText ev) k) excludeTokens)"

definition retainedLowerCased :: "event \<Rightarrow> string list \<Rightarrow> bool" where
  "retainedLowerCased ev kws =
    (let includeTokens = filter (\<lambda>k. \<not> startsWith k ''-'') kws;
         excludeTokens = map (drop 1) (filter (\<lambda>k. startsWith k ''-'') kws)
     in (includeTokens = [] \<or> list_all (\<lambda>k. includes_str (eventText ev) (toLowerCase k)) includeTokens)
        \<and> list_all (\<lambda>k. \<not> includes_str (eventText ev) (toLowerCase k)) excludeTokens)"






text \<open>
  The progress of the tracker over \<open>n\<close> messages handed to the sender: each message adds
  one to exactly one of the two counters, a message that failed on both channels has left
  two errors, and the other counters are as before.
\<close>

definition sendProgress :: "nat \<Rightarrow> metrics \<Rightarrow> metrics \<Rightarrow> bool" where
  "sendProgress n t t' =
    (emailsSent t' + emailsFailed t' = emailsSent t + emailsFailed t + n
     \<and> emailsSent t \<le> emailsSent t' \<and> emailsFailed t \<le> emailsFailed t'
     \<and> length (errors t) + 2 * (emailsFailed t' - emailsFailed t) \<le> length (errors t')
     \<and> retriesPerformed t' = retriesPerformed t
     \<and> calendarsProcessed t' = calendarsProcessed t
     \<and> eventsFound t' = eventsFound t)"







text \<open>
  No character class of a pattern admits the character: then no string with the character
  matches the pattern.
\<close>

fun rejects :: "char \<Rightarrow> rx \<Rightarrow> bool" where
  "rejects c Never = True"
| "rejects c Eps = True"
| "rejects c (Cls p) = (\<not> p c)"
| "rejects c (Seq r s) = (rejects c r \<and> rejects c s)"
| "rejects c (Alt r s) = (rejects c r \<and> rejects c s)"
| "rejects c (Star r) = rejects c r"

text \<open>The search for a doubled dot, before any dot was read and after one dot.\<close>

definition dotsStart :: rx where
  "dotsStart = Seq (Star AnyChar) (Seq (Word ''..'') (Star AnyChar))"

definition dotsOne :: rx where
  "dotsOne = Alt dotsStart (Seq (Seq (Lit CHR ''.'') Eps) (Star AnyChar))"

section \<open>Sample data\<close>

text \<open>Sample events.\<close>

definition exampleEvent :: event where
  "exampleEvent = \<lparr> getTitle = ''a'', getDescription = [], getLocation = [],
                     getStartTime = 0, getEndTime = 0 \<rparr>"

definition importantEvent :: event where
  "importantEvent = \<lparr> getTitle = ''Important Review'', getDescription = ''Quarterly'',
                       getLocation = ''Room 1'', getStartTime = 0, getEndTime = 0 \<rparr>"

definition cancelledEvent :: event where
  "cancelledEvent = \<lparr> getTitle = ''Important Sync'', getDescription = ''CANCELLED'',
                       getLocation = [], getStartTime = 0, getEndTime = 0 \<rparr>"

text \<open>
  A platform on which every service answers at once: any calendar exists and is empty,
  every mail is sent. Its state is a counter that the platforms below put to use.
\<close>

definition quietPlatform :: "nat platform" where
  "quietPlatform =
    \<lparr> mathRandom = (\<lambda>s. (1 / 2, s)),
      utilitiesSleep = (\<lambda>d s. s),
      getCalendarById = (\<lambda>cid s. (Inr (Some \<lparr> calendarRef = cid, getName = cid \<rparr>), s)),
      getEvents = (\<lambda>c a b s. (Inr [], s)),
      gmailSendEmail = (\<lambda>t sb b h s. (Inr (), s)),
      mailSendEmail = (\<lambda>t sb b s. (Inr (), s)),
      configGet = (\<lambda>k s. (None, s)),
      openConfigSheet = (\<lambda>i n s. (Inr True, s)),
      getValues = (\<lambda>i n s. (Inr [], s)),
      activeUserEmail = (\<lambda>s. (Inr ''owner@example.com'', s)),
      generateEmailBody = (\<lambda>r c e p d. \<lparr> htmlBody = [], textBody = [] \<rparr>) \<rparr>"




text \<open>A platform whose primary mail channel rejects every message.\<close>

definition gmailDownPlatform :: "nat platform" where
  "gmailDownPlatform =
     quietPlatform\<lparr> gmailSendEmail := (\<lambda>t sb b h s. (Inl (Error ''Invalid argument''), s)) \<rparr>"

definition exampleMessage :: email_data where
  "exampleMessage = \<lparr> to = ''user@example.com'', subject = ''Your Events for the Day'',
                       body = ''Hello'', options = None \<rparr>"

text \<open>
  A platform with a sheet of one row, whose calendar lookup times out twice before it
  answers; the state counts the timeouts.
\<close>

definition flakyPlatform :: "nat platform" where
  "flakyPlatform =
     quietPlatform\<lparr>
       configGet := (\<lambda>k s. (if k = ''SPREADSHEET_ID'' then Some ''sheet-1'' else None, s)),
       getValues := (\<lambda>i n s. (Inr [ [''Recipient Email'', ''Calendar ID''],
                                     [''user@example.com'', ''team@example.com''] ], s)),
       getCalendarById := (\<lambda>cid s.
          if s < 2 then (Inl (Error ''timeout''), Suc s)
          else (Inr (Some \<lparr> calendarRef = cid, getName = ''Team'' \<rparr>), s)),
       getEvents := (\<lambda>c a b s. (Inr [exampleEvent], s)) \<rparr>"


text \<open>Sample recipients, and the range of \<open>today\<close> on Wednesday 1 May 2024, 01:00 UTC.\<close>

definition noPreferences :: preferences where
  "noPreferences = \<lparr> timezone = None, use24Hour = None, dateRange = None, frequency = None,
                      filterKeywords = None \<rparr>"

definition sampleRecipient :: recipient where
  "sampleRecipient =
     \<lparr> email = ''user@example.com'', calendarId = ''team@example.com'',
       preferences = noPreferences,
       isMultiCalendar = False, calendarIndex = 0, totalCalendars = 1 \<rparr>"

definition weekdaysRecipient :: recipient where
  "weekdaysRecipient =
     \<lparr> email = ''second@example.com'', calendarId = ''team@example.com'',
       preferences = noPreferences\<lparr> dateRange := Some ''weekdays'' \<rparr>,
       isMultiCalendar = False, calendarIndex = 0, totalCalendars = 1 \<rparr>"

definition otherRecipient :: recipient where
  "otherRecipient =
     \<lparr> email = ''third@example.com'', calendarId = ''other@example.com'',
       preferences = noPreferences,
       isMultiCalendar = False, calendarIndex = 0, totalCalendars = 1 \<rparr>"


definition missingRecipient :: recipient where
  "missingRecipient =
     \<lparr> email = ''user@example.com'', calendarId = ''missing@example.com'',
       preferences = noPreferences,
       isMultiCalendar = True, calendarIndex = 1, totalCalendars = 2 \<rparr>"

text \<open>
  Two zones: universal time, and the zone of New York in 2024, five hours behind universal
  time and four hours behind it between 10 March, 2 o'clock, and 3 November, 2 o'clock.
\<close>

definition utcZone :: zone where
  "utcZone = fixedZone 0"


definition sampleNow :: int where
  "sampleNow = 1714525200000"

definition sampleRange :: date_range where
  "sampleRange = \<lparr> startDate = 1714521600000, endDate = 1714608000000, description = ''today'' \<rparr>"

definition teamCalendar :: calendar where
  "teamCalendar = \<lparr> calendarRef = ''team@example.com'', getName = ''Team'' \<rparr>"


text \<open>The outcome of the two groups of one user on \<open>halfPlatform\<close>, and the user's entry.\<close>

definition teamData :: calendar_data where
  "teamData = \<lparr> cd_calendar = Some teamCalendar, cd_events = [exampleEvent],
                 cd_recipients = [sampleRecipient], cd_dateRange = sampleRange,
                 cd_success = True, cd_error = None \<rparr>"


definition userEntry :: recipient_data where
  "userEntry =
     \<lparr> rd_recipient = sampleRecipient,
       rd_calendars = [\<lparr> src_calendar = Some teamCalendar, src_events = [exampleEvent] \<rparr>],
       rd_dateRange = sampleRange, hasErrors = True,
       rd_errors = [\<lparr> se_calendarId = ''Unknown'', se_error = Some ''Calendar not found'' \<rparr>] \<rparr>"

section \<open>Evaluation of characters and renderings\<close>

lemmas char_eval = char_of_def bit_Suc_0_iff

lemma digitChar_values:
  "digitChar 0 = CHR ''0''" "digitChar 1 = CHR ''1''" "digitChar (Suc 0) = CHR ''1''"
  "digitChar 2 = CHR ''2''" "digitChar 3 = CHR ''3''" "digitChar 4 = CHR ''4''"
  "digitChar 5 = CHR ''5''" "digitChar 6 = CHR ''6''" "digitChar 7 = CHR ''7''"
  "digitChar 8 = CHR ''8''" "digitChar 9 = CHR ''9''"
  by (simp_all add: digitChar_def char_eval)

lemma showNat_zero: "showNat 0 = ''0''"
  by (simp add: showNat.simps digitChar_values)

section \<open>The date range of today\<close>

lemma setDate_next:
  "setDate tz t (getDate tz t + n) = UTC tz (LocalTime tz t + n * msPerDay)"
  by (simp add: setDate_def)

lemma fixedZone_times:
  "LocalTime (fixedZone k) t = t + k"
  "UTC (fixedZone k) t = t - k"
  by (simp_all add: LocalTime_def UTC_def fixedZone_def)

lemma setHoursZero_fixedZone: "setHoursZero (fixedZone k) T = T - (T + k) mod msPerDay"
proof -
  have "(T + k) div msPerDay * msPerDay = (T + k) - (T + k) mod msPerDay"
    by (simp add: minus_mod_eq_div_mult)
  then show ?thesis by (simp add: setHoursZero_def localDay_def fixedZone_times)
qed

lemma today_fixedZone:
  "calculateDateRange (fixedZone k) T ''today'' =
     \<lparr> startDate = T - (T + k) mod msPerDay,
       endDate = T - (T + k) mod msPerDay + 24 * 3600000,
       description = ''today'' \<rparr>"
  by (simp add: calculateDateRange_def Let_def setDate_next setHoursZero_fixedZone fixedZone_times
      msPerDay_def)


lemma sample_range: "calculateDateRange utcZone sampleNow ''today'' = sampleRange"
  by (simp add: utcZone_def today_fixedZone msPerDay_def sampleNow_def sampleRange_def)

lemma sample_range_weekdays:
  "calculateDateRange utcZone sampleNow ''weekdays''
     = sampleRange\<lparr> description := ''today (weekdays only)'' \<rparr>"
proof -
  have "calculateDateRange utcZone sampleNow ''weekdays''
          = (calculateDateRange utcZone sampleNow ''today'')\<lparr> description := ''today (weekdays only)'' \<rparr>"
    by (simp add: calculateDateRange_def Let_def)
  then show ?thesis by (simp add: sample_range)
qed

lemma sample_key:
  "makeGroupKey ''team@example.com'' sampleRange = ''team@example.com|1714521600000|1714608000000''"
  "makeGroupKey ''other@example.com'' sampleRange = ''other@example.com|1714521600000|1714608000000''"
  "makeGroupKey ''missing@example.com'' sampleRange = ''missing@example.com|1714521600000|1714608000000''"
  by (simp_all add: makeGroupKey_def sampleRange_def showInt_def showNat.simps digitChar_values)





text \<open>
  Claim C8. At every instant, \<open>weekdays\<close> and \<open>weekdays only\<close> give the start and the end of
  \<open>today\<close> and differ from it in the description alone, which is \<open>today (weekdays only)\<close>;
  so on one calendar the group key of a \<open>weekdays\<close> range is the group key of \<open>today\<close>.
\<close>

theorem calculateDateRange_weekdays:
  "startDate (calculateDateRange tz T ''weekdays'') = startDate (calculateDateRange tz T ''today'')
   \<and> endDate (calculateDateRange tz T ''weekdays'') = endDate (calculateDateRange tz T ''today'')
   \<and> description (calculateDateRange tz T ''weekdays'') = ''today (weekdays only)''
   \<and> startDate (calculateDateRange tz T ''weekdays only'') = startDate (calculateDateRange tz T ''today'')
   \<and> endDate (calculateDateRange tz T ''weekdays only'') = endDate (calculateDateRange tz T ''today'')
   \<and> description (calculateDateRange tz T ''weekdays only'') = ''today (weekdays only)''
   \<and> description (calculateDateRange tz T ''today'') = ''today''
   \<and> makeGroupKey cid (calculateDateRange tz T ''weekdays'')
       = makeGroupKey cid (calculateDateRange tz T ''today'')
   \<and> makeGroupKey cid (calculateDateRange tz T ''weekdays only'')
       = makeGroupKey cid (calculateDateRange tz T ''today'')"
  by (simp add: calculateDateRange_def Let_def makeGroupKey_def)

theorem calculateDateRange_weekdays_witness:
  "makeGroupKey ''team@example.com'' (calculateDateRange utcZone sampleNow ''weekdays'')
     = ''team@example.com|1714521600000|1714608000000''
   \<and> description (calculateDateRange utcZone sampleNow ''weekdays'') = ''today (weekdays only)''"
proof -
  have "makeGroupKey ''team@example.com'' (calculateDateRange utcZone sampleNow ''weekdays'')
          = makeGroupKey ''team@example.com'' (calculateDateRange utcZone sampleNow ''today'')"
    and "description (calculateDateRange utcZone sampleNow ''weekdays'') = ''today (weekdays only)''"
    using calculateDateRange_weekdays [of utcZone sampleNow "''team@example.com''"] by blast+
  then show ?thesis by (simp add: sample_range sample_key)
qed

section \<open>The keyword filter\<close>

text \<open>
  Claim C6 as stated fails: the filter lower-cases the tokens before it searches, so the
  token \<open>A\<close> retains an event titled \<open>a\<close>, which the rule as stated drops.
\<close>

theorem filterEventsByKeywords_upper_token:
  "filterEventsByKeywords [exampleEvent] (Some [''A'']) = [exampleEvent]
   \<and> filter (\<lambda>ev. retainedAsStated ev [''A'']) [exampleEvent] = []"
  by code_simp

lemma toLowerCase_drop: "toLowerCase (drop n k) = drop n (toLowerCase k)"
  by (simp add: toLowerCase_def drop_map)

lemma filterEventsByKeywords_Some:
  "filterEventsByKeywords events (Some kws) = filter (\<lambda>ev. retainedLowerCased ev kws) events"
proof (cases "kws = []")
  case True
  then show ?thesis
    by (simp add: filterEventsByKeywords_def retainedLowerCased_def)
next
  case False
  then show ?thesis
    by (simp add: filterEventsByKeywords_def retainedLowerCased_def includeKeywords_def
        excludeKeywords_def Let_def list_all_iff toLowerCase_drop)
qed

lemma retained_lower_tokens:
  assumes "\<forall>k \<in> set kws. toLowerCase k = k"
  shows "retainedLowerCased ev kws = retainedAsStated ev kws"
proof -
  have a: "\<And>k. k \<in> set kws \<Longrightarrow> toLowerCase k = k" using assms by blast
  have b: "\<And>k. k \<in> set kws \<Longrightarrow> toLowerCase (drop 1 k) = drop 1 k"
    using a by (simp add: toLowerCase_drop)
  show ?thesis
    unfolding retainedLowerCased_def retainedAsStated_def Let_def list_all_iff
    using a b by auto
qed

text \<open>
  Claim C6, amended. An absent or empty keyword list returns the events unchanged. Otherwise
  an event is retained exactly when (there is no include token, or every lower-cased include
  token occurs in the event's lower-cased text) and no lower-cased exclude token, its
  leading \<open>-\<close> stripped, occurs in it. On tokens that are lower-case already, as the loader
  produces them, this is the rule as stated.
\<close>

theorem filterEventsByKeywords_retains:
  "filterEventsByKeywords events None = events
   \<and> filterEventsByKeywords events (Some []) = events
   \<and> filterEventsByKeywords events (Some kws) = filter (\<lambda>ev. retainedLowerCased ev kws) events
   \<and> ((\<forall>k \<in> set kws. toLowerCase k = k) \<longrightarrow>
        filterEventsByKeywords events (Some kws) = filter (\<lambda>ev. retainedAsStated ev kws) events)"
proof -
  have "(\<forall>k \<in> set kws. toLowerCase k = k) \<longrightarrow>
        filterEventsByKeywords events (Some kws) = filter (\<lambda>ev. retainedAsStated ev kws) events"
    by (simp add: filterEventsByKeywords_Some retained_lower_tokens)
  moreover have "filterEventsByKeywords events None = events"
    "filterEventsByKeywords events (Some []) = events"
    by (simp_all add: filterEventsByKeywords_def)
  ultimately show ?thesis using filterEventsByKeywords_Some by blast
qed

theorem filterEventsByKeywords_retains_witness:
  "toLowerCase ''important'' = ''important''
   \<and> toLowerCase ''-cancelled'' = ''-cancelled''
   \<and> filterEventsByKeywords [importantEvent, cancelledEvent] (Some [''important'', ''-cancelled''])
       = [importantEvent]"
proof -
  have l1: "toLowerCase ''important'' = ''important''"
    and l2: "toLowerCase ''-cancelled'' = ''-cancelled''"
    by code_simp+
  have h: "\<forall>k \<in> set [''important'', ''-cancelled'']. toLowerCase k = k"
    using l1 l2 by simp
  have f: "filter (\<lambda>ev. retainedAsStated ev [''important'', ''-cancelled''])
             [importantEvent, cancelledEvent] = [importantEvent]"
    by code_simp
  have r: "filterEventsByKeywords [importantEvent, cancelledEvent] (Some [''important'', ''-cancelled''])
           = filter (\<lambda>ev. retainedAsStated ev [''important'', ''-cancelled''])
               [importantEvent, cancelledEvent]"
    using h filterEventsByKeywords_retains
      [of "[importantEvent, cancelledEvent]" "[''important'', ''-cancelled'']"]
    by blast
  from r f have "filterEventsByKeywords [importantEvent, cancelledEvent]
      (Some [''important'', ''-cancelled'']) = [importantEvent]"
    by (rule trans)
  with l1 l2 show ?thesis by (intro conjI)
qed

section \<open>Validation and the rows of the sheet\<close>

lemma rxMatch_Never: "\<not> rxMatch Never s"
  by (induction s) simp_all

lemma rxMatch_any: "rxMatch (Star AnyChar) s"
  by (induction s) (simp_all add: AnyChar_def)

lemma alt_cases: "alt r s = s \<and> r = Never \<or> alt r s = r \<and> s = Never \<or> alt r s = Alt r s"
  by (cases r; cases s) simp_all

lemma rxMatch_sink: "rxMatch (Alt r (Star AnyChar)) s"
proof (induction s arbitrary: r)
  case Nil
  then show ?case by simp
next
  case (Cons c s)
  have d: "deriv c (Star AnyChar) = Star AnyChar" by (simp add: AnyChar_def)
  have "alt (deriv c r) (Star AnyChar) = Star AnyChar
        \<or> alt (deriv c r) (Star AnyChar) = Alt (deriv c r) (Star AnyChar)"
    using alt_cases [of "deriv c r" "Star AnyChar"] by auto
  then show ?case using Cons.IH [of "deriv c r"] rxMatch_any [of s] d by auto
qed

lemma deriv_dotsStart:
  "deriv c dotsStart = (if c = CHR ''.'' then dotsOne else dotsStart)"
  by (simp add: dotsStart_def dotsOne_def AnyChar_def Lit_def)

lemma deriv_dotsOne:
  "deriv c dotsOne = (if c = CHR ''.'' then Alt dotsOne (Star AnyChar) else dotsStart)"
  by (simp add: dotsOne_def deriv_dotsStart)
     (simp add: dotsStart_def dotsOne_def AnyChar_def Lit_def)

lemma rxMatch_dots:
  "(rxMatch dotsStart s \<longleftrightarrow> includes_str s ''..'')
   \<and> (rxMatch dotsOne s \<longleftrightarrow> startsWith s ''.'' \<or> includes_str s ''..'')"
proof (induction s)
  case Nil
  then show ?case by (simp add: dotsStart_def dotsOne_def Lit_def)
next
  case (Cons c s)
  show ?case
  proof (cases "c = CHR ''.''")
    case True
    then show ?thesis using Cons.IH
      by (simp add: deriv_dotsStart deriv_dotsOne rxMatch_sink)
  next
    case False
    then show ?thesis using Cons.IH
      by (simp add: deriv_dotsStart deriv_dotsOne)
  qed
qed

lemma hasConsecutiveDots_iff: "rxTest (Word ''..'') s \<longleftrightarrow> includes_str s ''..''"
  using rxMatch_dots [of s] by (simp add: rxTest_def dotsStart_def del: Word.simps)

lemma validateRecipientData_email_doubled_dot:
  "includes_str addr ''..'' \<Longrightarrow> \<not> isValid (validateRecipientData addr cal)"
  by (simp add: validateRecipientData_def Let_def hasConsecutiveDots_iff del: Word.simps)

lemma seq_cases: "seq r s = Never \<or> seq r s = s \<or> seq r s = Seq r s"
  by (cases r) simp_all

lemma rejects_seq: "rejects c r \<Longrightarrow> rejects c s \<Longrightarrow> rejects c (seq r s)"
  using seq_cases [of r s] by auto

lemma rejects_alt: "rejects c r \<Longrightarrow> rejects c s \<Longrightarrow> rejects c (alt r s)"
  using alt_cases [of r s] by auto

lemma rejects_deriv: "rejects c r \<Longrightarrow> rejects c (deriv d r)"
  by (induction r) (auto simp: rejects_seq rejects_alt)

lemma deriv_rejected: "rejects c r \<Longrightarrow> deriv c r = Never"
  by (induction r) auto

lemma rejects_no_match: "rejects c r \<Longrightarrow> c \<in> set s \<Longrightarrow> \<not> rxMatch r s"
proof (induction s arbitrary: r)
  case Nil
  then show ?case by simp
next
  case (Cons d s)
  show ?case
  proof (cases "d = c")
    case True
    then show ?thesis using Cons.prems(1) by (simp add: deriv_rejected rxMatch_Never)
  next
    case False
    then have "c \<in> set s" using Cons.prems(2) by simp
    then show ?thesis using Cons.IH [OF rejects_deriv [OF Cons.prems(1)] ] by simp
  qed
qed

lemma emailRegex_rejects_comma: "rejects CHR '','' emailRegex"
  by (simp add: emailRegex_def Opt_def Lit_def isAlnum_def isAlpha_def isLower_def isUpper_def
      isDigit_def)

lemma comma_cell_invalid:
  "CHR '','' \<in> set cell \<Longrightarrow> \<not> isValid (validateRecipientData addr cell)"
  using rejects_no_match [OF emailRegex_rejects_comma, of cell]
  by (simp add: validateRecipientData_def Let_def)

lemma parseRow_comma:
  "cellAt row (calendarIdColumnIndex cols) = Some cell \<Longrightarrow> CHR '','' \<in> set cell \<Longrightarrow>
   parseRow cols row = []"
  by (simp add: parseRow_def comma_cell_invalid split: option.splits)

text \<open>
  Claim C9 fails on the calendar argument: the test for a doubled dot is applied to the
  address only. An address with a doubled dot is always refused, but a calendar id with a
  doubled dot in its local part is accepted.
\<close>

theorem validateRecipientData_calendar_doubled_dot:
  "includes_str ''a..b@example.com'' ''..''
   \<and> validateRecipientData ''user@example.com'' ''a..b@example.com''
       = \<lparr> isValid = True, val_errors = [] \<rparr>
   \<and> (\<forall>addr cal. includes_str addr ''..'' \<longrightarrow> \<not> isValid (validateRecipientData addr cal))"
proof -
  have "includes_str ''a..b@example.com'' ''..''
   \<and> validateRecipientData ''user@example.com'' ''a..b@example.com''
       = \<lparr> isValid = True, val_errors = [] \<rparr>"
    by code_simp
  then show ?thesis using validateRecipientData_email_doubled_dot by blast
qed

theorem validateRecipientData_calendar_doubled_dot_witness:
  "isValid (validateRecipientData ''user@example.com'' ''a..b@example.com'')
   \<and> \<not> isValid (validateRecipientData ''a..b@example.com'' ''user@example.com'')"
proof -
  have "includes_str ''a..b@example.com'' ''..''" by code_simp
  then show ?thesis using validateRecipientData_calendar_doubled_dot by simp
qed

text \<open>
  Claim C2 fails for more than one calendar id: the row of the sheet is validated as a whole
  before its calendar cell is split, and a cell with a comma never has the shape of an
  address, so every row whose calendar cell has a comma yields no record. The row below has
  three valid ids and yields none.
\<close>

theorem loadConfiguration_multi_calendar_row:
  "parseRecipients (readColumns [''Recipient Email'', ''Calendar ID''])
     [ [''user@example.com'', ''cal1@gmail.com,cal2@gmail.com,cal3@gmail.com''] ] = []
   \<and> isValid (validateRecipientData ''user@example.com'' ''cal1@gmail.com'')
   \<and> isValid (validateRecipientData ''user@example.com'' ''cal2@gmail.com'')
   \<and> isValid (validateRecipientData ''user@example.com'' ''cal3@gmail.com'')
   \<and> (\<forall>cols row cell.
         cellAt row (calendarIdColumnIndex cols) = Some cell \<and> CHR '','' \<in> set cell \<longrightarrow>
         parseRow cols row = [])"
proof -
  have "parseRecipients (readColumns [''Recipient Email'', ''Calendar ID''])
     [ [''user@example.com'', ''cal1@gmail.com,cal2@gmail.com,cal3@gmail.com''] ] = []
   \<and> isValid (validateRecipientData ''user@example.com'' ''cal1@gmail.com'')
   \<and> isValid (validateRecipientData ''user@example.com'' ''cal2@gmail.com'')
   \<and> isValid (validateRecipientData ''user@example.com'' ''cal3@gmail.com'')"
    by code_simp
  then show ?thesis using parseRow_comma by blast
qed

theorem loadConfiguration_multi_calendar_row_witness:
  "parseRow \<lparr> emailColumnIndex = 0, calendarIdColumnIndex = 1, timezoneColumnIndex = - 1,
              timeFormatColumnIndex = - 1, dateRangeColumnIndex = - 1, frequencyColumnIndex = - 1,
              statusColumnIndex = - 1, filterKeywordsColumnIndex = - 1 \<rparr>
     [''user@example.com'', ''a@example.com,b@example.com''] = []"
proof -
  have "cellAt [''user@example.com'', ''a@example.com,b@example.com''] 1
          = Some ''a@example.com,b@example.com''"
    by (simp add: cellAt_def)
  moreover have "CHR '','' \<in> set ''a@example.com,b@example.com''" by simp
  ultimately show ?thesis using loadConfiguration_multi_calendar_row by simp
qed

section \<open>Retry with backoff\<close>






lemma timeout_retryable: "isRetryableError (Error ''timeout'')"
  by code_simp

lemma invalid_argument_not_retryable: "\<not> isRetryableError (Error ''Invalid argument'')"
  by code_simp



section \<open>The batch sender\<close>

lemma sendProgress_refl: "sendProgress 0 t t"
  by (simp add: sendProgress_def)

lemma sendProgress_trans:
  "sendProgress n t t1 \<Longrightarrow> sendProgress m t1 t2 \<Longrightarrow> sendProgress (n + m) t t2"
  unfolding sendProgress_def by auto

lemma sendOne_cases:
  "(\<forall>u s1. retryOperationDefault P
              (gmailSendEmail P (to m) (subject m) (body m) (options m)) s = (Inr u, s1) \<longrightarrow>
       sendOne P (tracker, s) m = (incrementEmailsSent tracker, s1))
   \<and> (\<forall>e s1 u s2.
        retryOperationDefault P
              (gmailSendEmail P (to m) (subject m) (body m) (options m)) s = (Inl e, s1)
        \<and> retryOperationDefault P (mailSendEmail P (to m) (subject m) (body m)) s1 = (Inr u, s2) \<longrightarrow>
        sendOne P (tracker, s) m =
          (incrementEmailsSent (addError e (''Sending email to '' @ to m) tracker), s2))
   \<and> (\<forall>e s1 fe s2.
        retryOperationDefault P
              (gmailSendEmail P (to m) (subject m) (body m) (options m)) s = (Inl e, s1)
        \<and> retryOperationDefault P (mailSendEmail P (to m) (subject m) (body m)) s1 = (Inl fe, s2) \<longrightarrow>
        sendOne P (tracker, s) m =
          (addError fe (''Fallback email to '' @ to m)
             (incrementEmailsFailed (addError e (''Sending email to '' @ to m) tracker)), s2))"
  by (simp add: sendOne_def Let_def)

lemma sendOne_progress: "sendProgress 1 t (fst (sendOne P (t, s) m))"
  by (simp add: sendOne_def Let_def sendProgress_def incrementEmailsSent_def
      incrementEmailsFailed_def addError_def split: prod.splits sum.splits)

lemma foldl_sendOne_progress:
  "sendProgress (length b) t (fst (foldl (sendOne P) (t, s) b))"
proof (induction b arbitrary: t s)
  case Nil
  then show ?case by (simp add: sendProgress_refl)
next
  case (Cons m b)
  obtain t1 s1 where o: "sendOne P (t, s) m = (t1, s1)" by (cases "sendOne P (t, s) m")
  have "sendProgress 1 t t1" using sendOne_progress [of t P s m] o by simp
  from sendProgress_trans [OF this Cons.IH [of t1 s1] ] show ?case using o by simp
qed

lemma sendBatchesFrom_progress:
  "sendProgress (length q - i) (fst st) (fst (sendBatchesFrom P q i st))"
proof (induction P q i st rule: sendBatchesFrom.induct)
  case (1 P emailQueue i st)
  show ?case
  proof (cases "i < length emailQueue")
    case False
    then show ?thesis by (subst sendBatchesFrom.simps) (simp add: sendProgress_refl)
  next
    case True
    let ?batch = "take BATCH_SIZE (drop i emailQueue)"
    let ?st1 = "foldl (sendOne P) st ?batch"
    let ?st2 = "if i + BATCH_SIZE < length emailQueue
                then (fst ?st1, utilitiesSleep P DELAY_BETWEEN_BATCHES (snd ?st1)) else ?st1"
    have step: "sendBatchesFrom P emailQueue i st = sendBatchesFrom P emailQueue (i + BATCH_SIZE) ?st2"
      using True by (subst sendBatchesFrom.simps) (simp add: Let_def)
    have a: "sendProgress (length ?batch) (fst st) (fst ?st1)"
      using foldl_sendOne_progress [of ?batch "fst st" P "snd st"] by simp
    have f2: "fst ?st2 = fst ?st1" by simp
    have b: "sendProgress (length emailQueue - (i + BATCH_SIZE)) (fst ?st2)
               (fst (sendBatchesFrom P emailQueue (i + BATCH_SIZE) ?st2))"
      using "1.IH" [OF True refl refl refl] .
    have len: "length ?batch + (length emailQueue - (i + BATCH_SIZE)) = length emailQueue - i"
      using True by (simp add: min_def)
    show ?thesis
      using sendProgress_trans [OF a b [unfolded f2] ] unfolding step len by simp
  qed
qed

lemma gmailDown_primary:
  "retryOperationDefault gmailDownPlatform
     (gmailSendEmail gmailDownPlatform (to exampleMessage) (subject exampleMessage)
        (body exampleMessage) (options exampleMessage)) 0
   = (Inl (Error ''Invalid argument''), 0)"
  by (simp add: retryOperationDefault_def retryOperation_def retryLoop.simps
      gmailDownPlatform_def quietPlatform_def invalid_argument_not_retryable)

lemma gmailDown_fallback:
  "retryOperationDefault gmailDownPlatform
     (mailSendEmail gmailDownPlatform (to exampleMessage) (subject exampleMessage)
        (body exampleMessage)) 0
   = (Inr (), 0)"
  by (simp add: retryOperationDefault_def retryOperation_def retryLoop.simps
      gmailDownPlatform_def quietPlatform_def)

lemma gmailDown_send:
  "sendEmailsBatched gmailDownPlatform [exampleMessage] newExecutionTracker 0 =
     (\<lparr> calendarsProcessed = 0, eventsFound = 0, emailsSent = 1, emailsFailed = 0,
        retriesPerformed = 0,
        errors = [\<lparr> err_message = ''Invalid argument'',
                    err_context = ''Sending email to user@example.com'' \<rparr>] \<rparr>, 0)"
  by (simp add: sendEmailsBatched_def sendBatchesFrom.simps BATCH_SIZE_def sendOne_def
      gmailDown_primary gmailDown_fallback newExecutionTracker_def incrementEmailsSent_def
      addError_def Let_def)
     (simp add: exampleMessage_def)

text \<open>
  Claim C4 as stated fails: the error of the primary channel is recorded before the
  fallback is tried. One message refused by the primary channel and sent by the fallback
  leaves \<open>emailsSent = 1\<close>, \<open>emailsFailed = 0\<close> and one error record.
\<close>

theorem sendEmailsBatched_fallback_records_error:
  "emailsSent (fst (sendEmailsBatched gmailDownPlatform [exampleMessage] newExecutionTracker 0)) = 1
   \<and> emailsFailed (fst (sendEmailsBatched gmailDownPlatform [exampleMessage] newExecutionTracker 0)) = 0
   \<and> errors (fst (sendEmailsBatched gmailDownPlatform [exampleMessage] newExecutionTracker 0))
       = [\<lparr> err_message = ''Invalid argument'', err_context = ''Sending email to user@example.com'' \<rparr>]"
  by (simp add: gmailDown_send)

text \<open>
  Claim C4, amended. A message sent by the primary channel adds one to \<open>emailsSent\<close> and
  records nothing. A message that the primary channel fails (after its retries) records
  that error; sent by the fallback, it then adds one to \<open>emailsSent\<close>; failed by the
  fallback too, it adds one to \<open>emailsFailed\<close> and records the second error. Over a whole
  queue every message adds one to exactly one of the two counters, and every message counted
  as failed has left two error records.
\<close>

theorem sendEmailsBatched_counts:
  "(\<forall>tracker s m u s1.
       retryOperationDefault P
              (gmailSendEmail P (to m) (subject m) (body m) (options m)) s = (Inr u, s1) \<longrightarrow>
       sendOne P (tracker, s) m = (incrementEmailsSent tracker, s1))
   \<and> (\<forall>tracker s m e s1 u s2.
        retryOperationDefault P
              (gmailSendEmail P (to m) (subject m) (body m) (options m)) s = (Inl e, s1)
        \<and> retryOperationDefault P (mailSendEmail P (to m) (subject m) (body m)) s1 = (Inr u, s2) \<longrightarrow>
        sendOne P (tracker, s) m =
          (incrementEmailsSent (addError e (''Sending email to '' @ to m) tracker), s2))
   \<and> (\<forall>tracker s m e s1 fe s2.
        retryOperationDefault P
              (gmailSendEmail P (to m) (subject m) (body m) (options m)) s = (Inl e, s1)
        \<and> retryOperationDefault P (mailSendEmail P (to m) (subject m) (body m)) s1 = (Inl fe, s2) \<longrightarrow>
        sendOne P (tracker, s) m =
          (addError fe (''Fallback email to '' @ to m)
             (incrementEmailsFailed (addError e (''Sending email to '' @ to m) tracker)), s2))
   \<and> sendProgress (length emailQueue) tracker0 (fst (sendEmailsBatched P emailQueue tracker0 s0))"
proof -
  have "sendProgress (length emailQueue) tracker0 (fst (sendEmailsBatched P emailQueue tracker0 s0))"
    using sendBatchesFrom_progress [of emailQueue 0 "(tracker0, s0)" P]
    by (simp add: sendEmailsBatched_def)
  then show ?thesis using sendOne_cases [of P] by blast
qed

theorem sendEmailsBatched_counts_witness:
  "sendOne gmailDownPlatform (newExecutionTracker, 0) exampleMessage
     = (incrementEmailsSent
          (addError (Error ''Invalid argument'') (''Sending email to '' @ to exampleMessage)
             newExecutionTracker), 0)
   \<and> sendProgress 1 newExecutionTracker
        (fst (sendEmailsBatched gmailDownPlatform [exampleMessage] newExecutionTracker 0))"
proof -
  note th = sendEmailsBatched_counts [of gmailDownPlatform "[exampleMessage]" newExecutionTracker 0]
  have 1: "sendOne gmailDownPlatform (newExecutionTracker, 0) exampleMessage
     = (incrementEmailsSent
          (addError (Error ''Invalid argument'') (''Sending email to '' @ to exampleMessage)
             newExecutionTracker), 0)"
    using th gmailDown_primary gmailDown_fallback by blast
  have 2: "sendProgress 1 newExecutionTracker
        (fst (sendEmailsBatched gmailDownPlatform [exampleMessage] newExecutionTracker 0))"
    using th by simp
  from 1 2 show ?thesis by (rule conjI)
qed

section \<open>Group keys\<close>
















section \<open>Grouping and fetching\<close>





























lemma sample_fields:
  "calendarId sampleRecipient = ''team@example.com''"
  "calendarId weekdaysRecipient = ''team@example.com''"
  "calendarId otherRecipient = ''other@example.com''"
  "calendarId missingRecipient = ''missing@example.com''"
  "email sampleRecipient = ''user@example.com''"
  "email missingRecipient = ''user@example.com''"
  "dateRange (preferences sampleRecipient) = None"
  "dateRange (preferences weekdaysRecipient) = Some ''weekdays''"
  "dateRange (preferences otherRecipient) = None"
  "dateRange (preferences missingRecipient) = None"
  "filterKeywords (preferences sampleRecipient) = None"
  by (simp_all add: sampleRecipient_def weekdaysRecipient_def otherRecipient_def
      missingRecipient_def noPreferences_def)

lemma sample_date_ranges:
  "recipientDateRange utcZone sampleNow sampleRecipient = sampleRange"
  "recipientDateRange utcZone sampleNow weekdaysRecipient
     = sampleRange\<lparr> description := ''today (weekdays only)'' \<rparr>"
  "recipientDateRange utcZone sampleNow otherRecipient = sampleRange"
  "recipientDateRange utcZone sampleNow missingRecipient = sampleRange"
  by (simp_all add: recipientDateRange_def sample_fields orElse_def sample_range
      sample_range_weekdays)






section \<open>Reconciliation and the queue\<close>



























section \<open>The retries counter\<close>

lemma fetchGroup_retries:
  "retriesPerformed (snd (fst (fetchGroup P ((c, t), s) kg))) = retriesPerformed t"
  by (cases kg)
     (simp add: fetchGroup_def failedGroup_def addError_def addEvents_def incrementCalendars_def
        split: prod.splits sum.splits)

lemma foldl_fetchGroup_retries:
  "retriesPerformed (snd (fst (foldl (fetchGroup P) st gs))) = retriesPerformed (snd (fst st))"
proof (induction gs arbitrary: st)
  case Nil
  then show ?case by simp
next
  case (Cons g gs)
  obtain c t s where st: "st = ((c, t), s)" by (metis surj_pair)
  show ?case using Cons.IH [of "fetchGroup P st g"] fetchGroup_retries [of P c t s g] st by simp
qed

lemma fetchCalendarDataBatched_retries:
  "retriesPerformed (snd (fst (fetchCalendarDataBatched P tz now rs t s))) = retriesPerformed t"
  by (simp add: fetchCalendarDataBatched_def foldl_fetchGroup_retries)

lemma sendEmailsBatched_retries:
  "retriesPerformed (fst (sendEmailsBatched P q t s)) = retriesPerformed t"
  using sendBatchesFrom_progress [of q 0 "(t, s)" P]
  by (simp add: sendEmailsBatched_def sendProgress_def)

lemma addError_retries: "retriesPerformed (addError e c t) = retriesPerformed t"
  by (simp add: addError_def)

lemma processRecipients_retries:
  "retriesPerformed (fst (processRecipients P tz now rs t s)) = retriesPerformed t"
proof -
  obtain cd t1 s1 where f: "fetchCalendarDataBatched P tz now rs t s = ((cd, t1), s1)"
    by (metis surj_pair)
  have "retriesPerformed t1 = retriesPerformed t"
    using fetchCalendarDataBatched_retries [of P tz now rs t s] f by simp
  then show ?thesis
    using f by (simp add: processRecipients_def addError_retries sendEmailsBatched_retries
        split: sum.splits)
qed

lemma startsWith_append: "startsWith (k @ rest) k"
  by (induction k) simp_all

lemma includes_here: "includes_str (a @ b @ rest) (a @ b)"
proof (cases "a @ b @ rest")
  case Nil
  then show ?thesis by simp
next
  case (Cons c cs)
  have "startsWith ((a @ b) @ rest) (a @ b)" by (rule startsWith_append)
  then show ?thesis using Cons by simp
qed

lemma includes_later: "includes_str ys k \<Longrightarrow> includes_str (xs @ ys) k"
proof (induction xs)
  case Nil
  then show ?case by simp
next
  case (Cons x xs)
  then show ?case by simp
qed

lemma generateAdminSummary_retries_line:
  assumes "retriesPerformed (sum_metrics sm) = 0"
  shows "includes_str (generateAdminSummary sm) ''Retries Performed: 0''"
proof -
  have k: "''Retries Performed: 0'' = ''Retries Performed: '' @ showNat 0"
    by (simp add: showNat_zero)
  have "includes_str (generateAdminSummary sm) (''Retries Performed: '' @ showNat 0)"
    unfolding generateAdminSummary_def Let_def assms
    by (rule includes_here | rule includes_later)+
  then show ?thesis unfolding k .
qed

lemma reportRun_retries:
  assumes "retriesPerformed t = 0"
  shows "retriesPerformed (run_tracker (reportRun P el (t, s))) = 0
       \<and> (\<forall>sm. run_summary (reportRun P el (t, s)) = Some sm \<longrightarrow> retriesPerformed (sum_metrics sm) = 0)
       \<and> (\<forall>rep. run_report (reportRun P el (t, s)) = Some rep \<longrightarrow>
            includes_str rep ''Retries Performed: 0'')"
proof -
  have "retriesPerformed (sum_metrics (getSummary el t)) = 0"
    using assms by (simp add: getSummary_def)
  from generateAdminSummary_retries_line [OF this] show ?thesis
    using assms by (simp add: reportRun_def Let_def getSummary_def)
qed

text \<open>
  Claim C10. In every execution of \<open>sendDailyEventSummary\<close> the counter \<open>retriesPerformed\<close>
  of the tracker is 0 at the end, whatever the platform does and however often
  \<open>retryOperation\<close> retried: no step of the run changes it. So the summary, when the run
  reaches it, has \<open>retriesPerformed = 0\<close>, and the administrator's report has the line
  \<open>Retries Performed: 0\<close>.
\<close>

theorem sendDailyEventSummary_retries_zero:
  "retriesPerformed (run_tracker (sendDailyEventSummary P tz now el s)) = 0
   \<and> (\<forall>sm. run_summary (sendDailyEventSummary P tz now el s) = Some sm \<longrightarrow>
         retriesPerformed (sum_metrics sm) = 0)
   \<and> (\<forall>rep. run_report (sendDailyEventSummary P tz now el s) = Some rep \<longrightarrow>
         includes_str rep ''Retries Performed: 0'')"
proof -
  obtain res s1 where l: "loadConfiguration P s = (res, s1)" by (cases "loadConfiguration P s")
  have z: "retriesPerformed newExecutionTracker = 0" by (simp add: newExecutionTracker_def)
  show ?thesis
  proof (cases res)
    case (Inl e)
    have "retriesPerformed (addError e ''Main execution'' newExecutionTracker) = 0"
      using z by (simp add: addError_retries)
    from reportRun_retries [OF this] show ?thesis
      using l Inl by (simp add: sendDailyEventSummary_def Let_def)
  next
    case (Inr c)
    show ?thesis
    proof (cases c)
      case None
      then show ?thesis using l Inr z
        by (simp add: sendDailyEventSummary_def Let_def addError_retries)
    next
      case (Some cfg)
      obtain t2 s2 where p: "processRecipients P tz now (recipients cfg) newExecutionTracker s1 = (t2, s2)"
        by (cases "processRecipients P tz now (recipients cfg) newExecutionTracker s1")
      have "retriesPerformed t2 = 0"
        using processRecipients_retries [of P tz now "recipients cfg" newExecutionTracker s1] p z
        by simp
      from reportRun_retries [OF this] show ?thesis
        using l Inr Some p by (simp add: sendDailyEventSummary_def Let_def)
    qed
  qed
qed

text \<open>
  A run on \<open>flakyPlatform\<close>: the calendar lookup is retried twice (the state counts two
  timeouts), the message is sent, and the counter of retries is 0.
\<close>

lemma flaky_rows:
  "parseRecipients (readColumns [''Recipient Email'', ''Calendar ID''])
     [ [''user@example.com'', ''team@example.com''] ] = [sampleRecipient]"
  by code_simp

lemma flaky_columns:
  "emailColumnIndex (readColumns [''Recipient Email'', ''Calendar ID'']) = 0"
  "calendarIdColumnIndex (readColumns [''Recipient Email'', ''Calendar ID'']) = 1"
  by code_simp+

lemma flaky_load:
  "loadConfiguration flakyPlatform 0 =
     (Inr (Some \<lparr> recipients = [sampleRecipient], spreadsheetId = ''sheet-1'',
                   sheetName = ''Config'' \<rparr>), 0)"
  by (simp add: loadConfiguration_def flakyPlatform_def quietPlatform_def flaky_rows flaky_columns)

lemma flaky_lookup:
  "retryOperationDefault flakyPlatform (lookupCalendar flakyPlatform ''team@example.com'') 0 =
     (Inr teamCalendar, 2)"
  by (simp add: retryOperationDefault_def retryOperation_def retryLoop.simps lookupCalendar_def
      flakyPlatform_def quietPlatform_def timeout_retryable Let_def teamCalendar_def)

lemma flaky_groups:
  "calendarGroupsOf utcZone sampleNow [sampleRecipient] =
     [(''team@example.com|1714521600000|1714608000000'',
       \<lparr> grp_calendarId = ''team@example.com'', grp_dateRange = sampleRange,
         grp_recipients = [sampleRecipient] \<rparr>)]"
proof -
  have "activeRecipients utcZone sampleNow [sampleRecipient] = [sampleRecipient]"
    by (simp add: activeRecipients_def orElse_def shouldSendEmail_def sampleRecipient_def
        noPreferences_def)
  then show ?thesis
    by (simp add: calendarGroupsOf_def addToGroups_def Let_def sample_date_ranges sample_fields
        sample_key)
qed

lemma flaky_events:
  "retryOperationDefault flakyPlatform
     (getEvents flakyPlatform teamCalendar (startDate sampleRange) (endDate sampleRange)) 2
     = (Inr [exampleEvent], 2)"
  by (simp add: retryOperationDefault_def retryOperation_def retryLoop.simps
      flakyPlatform_def quietPlatform_def)

lemma flaky_fetch:
  "fetchCalendarDataBatched flakyPlatform utcZone sampleNow [sampleRecipient] newExecutionTracker 0 =
     (([(''team@example.com|1714521600000|1714608000000'', teamData)],
       addEvents 1 (incrementCalendars newExecutionTracker)), 2)"
  by (simp add: fetchCalendarDataBatched_def flaky_groups fetchGroup_def flaky_lookup
      flaky_events teamData_def)

lemma flaky_reconcile:
  "reconcile [(''team@example.com|1714521600000|1714608000000'', teamData)]
     = [(''user@example.com'', userEntry\<lparr> hasErrors := False, rd_errors := [] \<rparr>)]"
  by (simp add: reconcile_def reconcileGroup_def reconcileRecipient_def newEntry_def addSource_def
      teamData_def sample_fields userEntry_def)

lemma flaky_queue:
  "buildEmailQueue flakyPlatform
     [(''user@example.com'', userEntry\<lparr> hasErrors := False, rd_errors := [] \<rparr>)] []
   = Inr [\<lparr> to = ''user@example.com'', subject = ''Your Events for the Day'', body = [],
            options = Some [] \<rparr>]"
  by (simp add: queueEntry_def summaryMessage_def summarySubject_def sampleRange_def
      userEntry_def teamCalendar_def flakyPlatform_def quietPlatform_def)

lemma flaky_send:
  "sendEmailsBatched flakyPlatform
     [\<lparr> to = ''user@example.com'', subject = ''Your Events for the Day'', body = [],
            options = Some [] \<rparr>] t 2
   = (incrementEmailsSent t, 2)"
  by (simp add: sendEmailsBatched_def sendBatchesFrom.simps BATCH_SIZE_def sendOne_def
      retryOperationDefault_def retryOperation_def retryLoop.simps flakyPlatform_def
      quietPlatform_def)

lemma flaky_process:
  "processRecipients flakyPlatform utcZone sampleNow [sampleRecipient] newExecutionTracker 0
     = (incrementEmailsSent (addEvents 1 (incrementCalendars newExecutionTracker)), 2)"
  by (simp add: processRecipients_def flaky_fetch flaky_reconcile flaky_queue flaky_send
      del: buildEmailQueue.simps)

lemma flaky_run:
  "run_tracker (sendDailyEventSummary flakyPlatform utcZone sampleNow 0 0) =
     \<lparr> calendarsProcessed = 1, eventsFound = 1, emailsSent = 1, emailsFailed = 0,
       retriesPerformed = 0, errors = [] \<rparr>
   \<and> run_state (sendDailyEventSummary flakyPlatform utcZone sampleNow 0 0) = 2
   \<and> run_summary (sendDailyEventSummary flakyPlatform utcZone sampleNow 0 0)
       = Some (getSummary 0 (run_tracker (sendDailyEventSummary flakyPlatform utcZone sampleNow 0 0)))"
proof -
  have a: "activeUserEmail flakyPlatform 2 = (Inr ''owner@example.com'', 2)"
    by (simp add: flakyPlatform_def quietPlatform_def)
  have m: "\<And>sb b. mailSendEmail flakyPlatform ''owner@example.com'' sb b 2 = (Inr (), 2)"
    by (simp add: flakyPlatform_def quietPlatform_def)
  have p: "sendDailyEventSummary flakyPlatform utcZone sampleNow 0 0
             = reportRun flakyPlatform 0
                 (incrementEmailsSent (addEvents 1 (incrementCalendars newExecutionTracker)), 2)"
    by (simp add: sendDailyEventSummary_def flaky_load flaky_process Let_def)
  show ?thesis
    unfolding p
    by (simp add: reportRun_def Let_def a m incrementEmailsSent_def addEvents_def
        incrementCalendars_def newExecutionTracker_def)
qed

theorem sendDailyEventSummary_retries_zero_witness:
  "run_state (sendDailyEventSummary flakyPlatform utcZone sampleNow 0 0) = 2
   \<and> emailsSent (run_tracker (sendDailyEventSummary flakyPlatform utcZone sampleNow 0 0)) = 1
   \<and> retriesPerformed (run_tracker (sendDailyEventSummary flakyPlatform utcZone sampleNow 0 0)) = 0
   \<and> retriesPerformed (sum_metrics
        (getSummary 0 (run_tracker (sendDailyEventSummary flakyPlatform utcZone sampleNow 0 0)))) = 0"
proof -
  note th = sendDailyEventSummary_retries_zero [of flakyPlatform utcZone sampleNow 0 0]
  have s: "run_summary (sendDailyEventSummary flakyPlatform utcZone sampleNow 0 0)
       = Some (getSummary 0 (run_tracker (sendDailyEventSummary flakyPlatform utcZone sampleNow 0 0)))"
    using flaky_run by blast
  have 1: "retriesPerformed (run_tracker (sendDailyEventSummary flakyPlatform utcZone sampleNow 0 0)) = 0"
    using th by blast
  have 2: "retriesPerformed (sum_metrics
        (getSummary 0 (run_tracker (sendDailyEventSummary flakyPlatform utcZone sampleNow 0 0)))) = 0"
    using th s by blast
  have 3: "run_state (sendDailyEventSummary flakyPlatform utcZone sampleNow 0 0) = 2"
    "emailsSent (run_tracker (sendDailyEventSummary flakyPlatform utcZone sampleNow 0 0)) = 1"
    using flaky_run by simp_all
  from 3 1 2 show ?thesis by (intro conjI)
qed

end
